theory Spec2Isabelle
  imports Complex_Main
begin

section \<open>Strings\<close>

text \<open>
  A JavaScript string is modelled as a \<^typ>\<open>string\<close>: a list of code units below 256
  (ASCII and Latin-1). On these code units \<^verbatim>\<open>toLowerCase\<close> maps \<^verbatim>\<open>A-Z\<close> and the
  Latin-1 capitals U+00C0..U+00DE (U+00D7 apart) to the code unit 32 above and leaves every
  other code unit alone; the white space of \<^verbatim>\<open>trim\<close> and of the regular expression
  class \<^verbatim>\<open>\s\<close> is TAB, LF, VT, FF, CR, SPACE and NBSP.
\<close>

definition upperCaseUnits :: "char list" where
  "upperCaseUnits = ''ABCDEFGHIJKLMNOPQRSTUVWXYZ'' @
     [CHR 0xC0, CHR 0xC1, CHR 0xC2, CHR 0xC3, CHR 0xC4, CHR 0xC5, CHR 0xC6, CHR 0xC7,
      CHR 0xC8, CHR 0xC9, CHR 0xCA, CHR 0xCB, CHR 0xCC, CHR 0xCD, CHR 0xCE, CHR 0xCF,
      CHR 0xD0, CHR 0xD1, CHR 0xD2, CHR 0xD3, CHR 0xD4, CHR 0xD5, CHR 0xD6,
      CHR 0xD8, CHR 0xD9, CHR 0xDA, CHR 0xDB, CHR 0xDC, CHR 0xDD, CHR 0xDE]"

definition lowerCaseUnits :: "char list" where
  "lowerCaseUnits = ''abcdefghijklmnopqrstuvwxyz'' @
     [CHR 0xE0, CHR 0xE1, CHR 0xE2, CHR 0xE3, CHR 0xE4, CHR 0xE5, CHR 0xE6, CHR 0xE7,
      CHR 0xE8, CHR 0xE9, CHR 0xEA, CHR 0xEB, CHR 0xEC, CHR 0xED, CHR 0xEE, CHR 0xEF,
      CHR 0xF0, CHR 0xF1, CHR 0xF2, CHR 0xF3, CHR 0xF4, CHR 0xF5, CHR 0xF6,
      CHR 0xF8, CHR 0xF9, CHR 0xFA, CHR 0xFB, CHR 0xFC, CHR 0xFD, CHR 0xFE]"

definition toLowerCaseUnit :: "char \<Rightarrow> char" where
  "toLowerCaseUnit c =
     (case map_of (zip upperCaseUnits lowerCaseUnits) c of Some l \<Rightarrow> l | None \<Rightarrow> c)"

definition toLowerCase :: "string \<Rightarrow> string" where
  "toLowerCase s = map toLowerCaseUnit s"

definition isWhiteSpace :: "char \<Rightarrow> bool" where
  "isWhiteSpace c = (c \<in> set [CHR 0x09, CHR 0x0A, CHR 0x0B, CHR 0x0C, CHR 0x0D, CHR '' '', CHR 0xA0])"

definition trim :: "string \<Rightarrow> string" where
  "trim s = rev (dropWhile isWhiteSpace (rev (dropWhile isWhiteSpace s)))"

text \<open>
  \<^verbatim>\<open>fileName.split('.')\<close>: the pieces between the dots, in order. The result is never
  empty: a name without a dot gives the one piece that is the whole name, and the empty
  name gives one empty piece.
\<close>

fun split_dot :: "string \<Rightarrow> string list" where
  "split_dot [] = [[]]"
| "split_dot (c # cs) =
     (if c = CHR ''.'' then [] # split_dot cs
      else (case split_dot cs of [] \<Rightarrow> [[c]] | p # ps \<Rightarrow> (c # p) # ps))"

text \<open>
  \<^verbatim>\<open>Array.prototype.pop\<close>, for the value it returns on the result of \<^verbatim>\<open>split\<close>, which is
  never empty: the last piece.
\<close>

definition pop :: "'a list \<Rightarrow> 'a" where
  "pop xs = last xs"

section \<open>Utils\<close>


definition isFileTypeAllowed :: "string \<Rightarrow> string list \<Rightarrow> bool" where
  "isFileTypeAllowed fileName allowedTypes =
     (let fileExtension = CHR ''.'' # toLowerCase (pop (split_dot fileName))
      in fileExtension \<in> set allowedTypes)"

text \<open>
  \<^verbatim>\<open>Utils.showAlert(message, type)\<close> appends an alert to the page. The model keeps the
  alerts in the order they were shown. The texts are Portuguese with interpolated values;
  each is one constructor carrying the interpolated values:
  \<^item> \<open>MaxFilesAllowed n\<close>: at most n files are allowed;
  \<^item> \<open>FileExceedsMaxSize name max\<close>: the file exceeds the maximum size;
  \<^item> \<open>FileFormatNotSupported name\<close>: the format of the file is not supported;
  \<^item> \<open>FileAlreadySelected name\<close>: the file was already selected;
  \<^item> \<open>MaxSignersAllowed n\<close>: at most n signers are allowed;
  \<^item> \<open>AtLeastOneSignerRequired\<close>: at least one signer is required;
  \<^item> \<open>AtLeastOneDocumentRequired\<close>: at least one document must be selected;
  \<^item> \<open>SigningFailed\<close>: error while signing the document, with the message of the error;
  \<^item> \<open>SigningStarted\<close>: the signing process was started.
  How long an alert stays on the page (timers, the close button, \<^verbatim>\<open>clearAlerts\<close>) is
  display state and is left out.
\<close>

datatype alert_type = AlertSuccess | AlertError | AlertWarning | AlertInfo

datatype js_error = FormIsNotValid | CommunicationFailure

datatype alert_message =
    MaxFilesAllowed nat
  | FileExceedsMaxSize string nat
  | FileFormatNotSupported string
  | FileAlreadySelected string
  | MaxSignersAllowed nat
  | AtLeastOneSignerRequired
  | AtLeastOneDocumentRequired
  | SigningFailed js_error
  | SigningStarted

type_synonym alert = "alert_message \<times> alert_type"

section \<open>MultipleItemsManager: data\<close>

text \<open>The browser's \<^verbatim>\<open>File\<close> handle, for the three properties the code reads.\<close>

record jsfile =
  file_name :: string
  file_size :: nat
  file_type :: string

text \<open>The record \<^verbatim>\<open>addFile\<close> pushes: \<^verbatim>\<open>{ id, file, name, size, type }\<close>.\<close>

record file_obj =
  fo_id :: string
  fo_file :: jsfile
  fo_name :: string
  fo_size :: nat
  fo_type :: string

text \<open>
  A \<^verbatim>\<open>.signer-item\<close> element of \<^verbatim>\<open>#signersContainer\<close>: the values of its name input,
  e-mail input and role select, the text of its \<^verbatim>\<open>.error-message\<close> element, the
  \<^verbatim>\<open>field-error\<close> class of each of the three controls, and its
  \<^verbatim>\<open>data-signer-index\<close> attribute. The first item comes from the page's markup and is
  taken to have the structure of the items \<^verbatim>\<open>addSigner\<close> creates.
\<close>

datatype signer_error = NameRequired | NameMinLength | EmailRequired | EmailInvalid | RoleRequired

datatype signer_input = NameInput | EmailInput | RoleSelect

record signer_item =
  nameValue :: string
  emailValue :: string
  roleValue :: string
  errorText :: "signer_error option"
  nameFieldError :: bool
  emailFieldError :: bool
  roleFieldError :: bool
  dataSignerIndex :: nat

text \<open>
  A check box of the assignment matrix. Its name is
  \<^verbatim>\<open>assignment[${signerIndex}][${file.id}]\<close>; the model keeps the two parts that
  \<^verbatim>\<open>getFormData\<close> reads back with \<^verbatim>\<open>/assignment\[(\d+)\]\[(.+)\]/\<close>, the signer index
  as the number its decimal digits denote.
\<close>

record assignment_input =
  ai_signerIndex :: nat
  ai_fileId :: string
  ai_checked :: bool

text \<open>
  The state of a \<^verbatim>\<open>MultipleItemsManager\<close> and of the page elements it reads and writes:
  \<^verbatim>\<open>this.selectedFiles\<close>, the children of \<^verbatim>\<open>#signersContainer\<close>, the two check boxes
  \<^verbatim>\<open>#sequentialSigning\<close> and \<^verbatim>\<open>#enableDocumentAssignment\<close>, the check boxes inside
  \<^verbatim>\<open>#assignmentMatrix\<close>, the alerts shown so far, and the number of identifiers
  \<^verbatim>\<open>Utils.generateId\<close> has drawn. \<^verbatim>\<open>generateId\<close> is a random token: the functions that
  draw one take the source \<open>gen\<close> of tokens, \<open>gen n\<close> being the n-th token drawn; nothing
  is assumed of it (two draws may give the same token). The analytics events
  (\<^verbatim>\<open>Utils.trackEvent\<close>, a console log) and the rendering of the file list
  (\<^verbatim>\<open>updateFileDisplay\<close>) change none of this and are left out.
\<close>

record manager =
  selectedFiles :: "file_obj list"
  signersContainer :: "signer_item list"
  sequentialSigningChecked :: bool
  enableDocumentAssignmentChecked :: bool
  assignmentMatrix :: "assignment_input list"
  alerts :: "alert list"
  idsDrawn :: nat

definition maxFiles :: nat where
  "maxFiles = 10"

definition maxSigners :: nat where
  "maxSigners = 10"

definition maxFileSize :: nat where
  "maxFileSize = 10 * 1024 * 1024"

definition showAlert :: "alert_message \<Rightarrow> alert_type \<Rightarrow> manager \<Rightarrow> manager" where
  "showAlert message type m = m\<lparr>alerts := alerts m @ [(message, type)]\<rparr>"

text \<open>The item \<^verbatim>\<open>addSigner\<close> inserts: empty controls, no error, the given index.\<close>

definition newSignerItem :: "nat \<Rightarrow> signer_item" where
  "newSignerItem signerIndex =
     \<lparr>nameValue = [], emailValue = [], roleValue = [], errorText = None,
      nameFieldError = False, emailFieldError = False, roleFieldError = False,
      dataSignerIndex = signerIndex\<rparr>"

text \<open>
  The constructor: no file, and the one signer item of the page's markup
  (\<^verbatim>\<open>initializeFirstSigner\<close> looks up \<^verbatim>\<open>.signer-item[data-signer-index="0"]\<close>).
\<close>

definition newMultipleItemsManager :: manager where
  "newMultipleItemsManager =
     \<lparr>selectedFiles = [], signersContainer = [newSignerItem 0],
      sequentialSigningChecked = False, enableDocumentAssignmentChecked = False,
      assignmentMatrix = [], alerts = [], idsDrawn = 0\<rparr>"

section \<open>MultipleItemsManager: the assignment matrix\<close>

text \<open>
  \<^verbatim>\<open>updateDocumentAssignmentMatrix\<close>: nothing when assignment mode is off; a notice and
  no check box when there is no file or no signer; otherwise a fresh matrix, one row per
  signer position and one checked box per file.
\<close>

definition matrixRow :: "file_obj list \<Rightarrow> nat \<Rightarrow> assignment_input list" where
  "matrixRow files signerIndex =
     map (\<lambda>file. \<lparr>ai_signerIndex = signerIndex, ai_fileId = fo_id file, ai_checked = True\<rparr>) files"

definition updateDocumentAssignmentMatrix :: "manager \<Rightarrow> manager" where
  "updateDocumentAssignmentMatrix m =
     (if \<not> enableDocumentAssignmentChecked m then m
      else if length (selectedFiles m) = 0 \<or> length (signersContainer m) = 0
        then m\<lparr>assignmentMatrix := []\<rparr>
      else m\<lparr>assignmentMatrix :=
                concat (map (matrixRow (selectedFiles m)) [0..<length (signersContainer m)])\<rparr>)"

section \<open>MultipleItemsManager: the File Collection\<close>

text \<open>
  \<^verbatim>\<open>validateFile(file)\<close>: the size, then the type, then the duplicate by name and size
  against the files selected so far; each failure shows one alert and returns false.
\<close>

definition validateFile :: "jsfile \<Rightarrow> manager \<Rightarrow> bool \<times> manager" where
  "validateFile file m =
     (if file_size file > maxFileSize
        then (False, showAlert (FileExceedsMaxSize (file_name file) maxFileSize) AlertError m)
      else if \<not> isFileTypeAllowed (file_name file) [''.pdf'', ''.docx'', ''.txt'']
        then (False, showAlert (FileFormatNotSupported (file_name file)) AlertError m)
      else if list_ex (\<lambda>existingFile. fo_name existingFile = file_name file \<and>
                                       fo_size existingFile = file_size file) (selectedFiles m)
        then (False, showAlert (FileAlreadySelected (file_name file)) AlertWarning m)
      else (True, m))"

definition addFile :: "(nat \<Rightarrow> string) \<Rightarrow> jsfile \<Rightarrow> manager \<Rightarrow> manager" where
  "addFile gen file m =
     (let fileObj = \<lparr>fo_id = gen (idsDrawn m), fo_file = file, fo_name = file_name file,
                      fo_size = file_size file, fo_type = file_type file\<rparr>
      in m\<lparr>selectedFiles := selectedFiles m @ [fileObj], idsDrawn := Suc (idsDrawn m)\<rparr>)"

text \<open>The body of the \<^verbatim>\<open>forEach\<close> of \<^verbatim>\<open>handleFileSelection\<close>, and the loop.\<close>

definition validateAndAdd :: "(nat \<Rightarrow> string) \<Rightarrow> manager \<Rightarrow> jsfile \<Rightarrow> manager" where
  "validateAndAdd gen m file =
     (case validateFile file m of
        (True, m') \<Rightarrow> addFile gen file m'
      | (False, m') \<Rightarrow> m')"

definition handleFileSelection :: "(nat \<Rightarrow> string) \<Rightarrow> jsfile list \<Rightarrow> manager \<Rightarrow> manager" where
  "handleFileSelection gen fileArray m =
     (if length (selectedFiles m) + length fileArray > maxFiles
        then showAlert (MaxFilesAllowed maxFiles) AlertError m
      else updateDocumentAssignmentMatrix (foldl (validateAndAdd gen) m fileArray))"

text \<open>\<^verbatim>\<open>Array.prototype.findIndex\<close>: the first index whose element passes, or -1.\<close>

fun findIndex :: "('a \<Rightarrow> bool) \<Rightarrow> 'a list \<Rightarrow> int" where
  "findIndex P [] = -1"
| "findIndex P (x # xs) =
     (if P x then 0 else (let i = findIndex P xs in if i = -1 then -1 else i + 1))"

text \<open>
  \<^verbatim>\<open>splice(index, 1)\<close> and \<^verbatim>\<open>element.remove()\<close>: the list without the element at the
  position (the same list when the position is beyond its end).
\<close>

definition removeAt :: "nat \<Rightarrow> 'a list \<Rightarrow> 'a list" where
  "removeAt i xs = take i xs @ drop (Suc i) xs"

definition removeFile :: "string \<Rightarrow> manager \<Rightarrow> manager" where
  "removeFile fileId m =
     (let index = findIndex (\<lambda>f. fo_id f = fileId) (selectedFiles m)
      in if index > -1
           then updateDocumentAssignmentMatrix
                  (m\<lparr>selectedFiles := removeAt (nat index) (selectedFiles m)\<rparr>)
         else m)"

definition clearAllFiles :: "manager \<Rightarrow> manager" where
  "clearAllFiles m = updateDocumentAssignmentMatrix (m\<lparr>selectedFiles := []\<rparr>)"

section \<open>MultipleItemsManager: the Signer Collection\<close>

text \<open>
  \<^verbatim>\<open>addSigner\<close> counts the children of the container, refuses with an alert at
  \<^verbatim>\<open>maxSigners\<close>, and otherwise appends an item whose index is the count.
\<close>

definition addSigner :: "manager \<Rightarrow> manager" where
  "addSigner m =
     (let signerCount = length (signersContainer m)
      in if signerCount \<ge> maxSigners
           then showAlert (MaxSignersAllowed maxSigners) AlertError m
         else updateDocumentAssignmentMatrix
                (m\<lparr>signersContainer := signersContainer m @ [newSignerItem signerCount]\<rparr>))"

text \<open>
  \<^verbatim>\<open>removeSigner(signerElement)\<close>: the element is the item whose remove button was
  pressed, given here by its position among the children of the container. The
  \<^verbatim>\<open>data-signer-index\<close> attributes of the items that stay are not rewritten.
\<close>

definition removeSigner :: "nat \<Rightarrow> manager \<Rightarrow> manager" where
  "removeSigner position m =
     (if length (signersContainer m) \<le> 1
        then showAlert AtLeastOneSignerRequired AlertError m
      else updateDocumentAssignmentMatrix
             (m\<lparr>signersContainer := removeAt position (signersContainer m)\<rparr>))"

text \<open>
  The test \<^verbatim>\<open>/^[^\s@]+@[^\s@]+\.[^\s@]+$/\<close>: a non-empty run of code units that are
  neither white space nor \<^verbatim>\<open>@\<close>, then \<^verbatim>\<open>@\<close>, then to the end of the value only such
  code units, with a dot among them that is neither the first nor the last.
\<close>

definition notSpaceOrAt :: "char \<Rightarrow> bool" where
  "notSpaceOrAt c = (\<not> isWhiteSpace c \<and> c \<noteq> CHR ''@'')"

definition emailPattern :: "string \<Rightarrow> bool" where
  "emailPattern v =
     (takeWhile notSpaceOrAt v \<noteq> [] \<and>
      (case dropWhile notSpaceOrAt v of
         [] \<Rightarrow> False
       | c # domain \<Rightarrow> c = CHR ''@'' \<and> list_all notSpaceOrAt domain \<and>
                       CHR ''.'' \<in> set (butlast (tl domain))))"

text \<open>
  \<^verbatim>\<open>validateSignerField(input)\<close>, the input being one of the three controls of an item:
  it computes the error, writes it (or the empty text) to the item's error element, sets or
  clears the control's \<^verbatim>\<open>field-error\<close> class, and returns whether there was no error.
\<close>

definition signerFieldError :: "signer_input \<Rightarrow> signer_item \<Rightarrow> signer_error option" where
  "signerFieldError input item =
     (case input of
        NameInput \<Rightarrow>
          (if trim (nameValue item) = [] then Some NameRequired
           else if length (trim (nameValue item)) < 3 then Some NameMinLength
           else None)
      | EmailInput \<Rightarrow>
          (if trim (emailValue item) = [] then Some EmailRequired
           else if \<not> emailPattern (emailValue item) then Some EmailInvalid
           else None)
      | RoleSelect \<Rightarrow>
          (if roleValue item = [] then Some RoleRequired else None))"

definition setFieldErrorClass :: "signer_input \<Rightarrow> bool \<Rightarrow> signer_item \<Rightarrow> signer_item" where
  "setFieldErrorClass input b item =
     (case input of
        NameInput \<Rightarrow> item\<lparr>nameFieldError := b\<rparr>
      | EmailInput \<Rightarrow> item\<lparr>emailFieldError := b\<rparr>
      | RoleSelect \<Rightarrow> item\<lparr>roleFieldError := b\<rparr>)"

definition validateSignerField :: "signer_input \<Rightarrow> signer_item \<Rightarrow> bool \<times> signer_item" where
  "validateSignerField input item =
     (let error = signerFieldError input item
      in (error = None, setFieldErrorClass input (error \<noteq> None) (item\<lparr>errorText := error\<rparr>)))"

text \<open>
  \<^verbatim>\<open>validateAll\<close>: an alert and \<^verbatim>\<open>isValid = false\<close> when no file is selected; then
  every control (\<^verbatim>\<open>querySelectorAll('input, select')\<close>, in document order: name, e-mail,
  role) of every signer item is validated, and any failure clears \<^verbatim>\<open>isValid\<close>.
\<close>

fun validateInputs :: "signer_input list \<Rightarrow> bool \<times> signer_item \<Rightarrow> bool \<times> signer_item" where
  "validateInputs [] (isValid, item) = (isValid, item)"
| "validateInputs (input # inputs) (isValid, item) =
     (case validateSignerField input item of
        (ok, item') \<Rightarrow> validateInputs inputs (if \<not> ok then False else isValid, item'))"

fun validateSigners :: "signer_item list \<Rightarrow> bool \<Rightarrow> bool \<times> signer_item list" where
  "validateSigners [] isValid = (isValid, [])"
| "validateSigners (signer # signers) isValid =
     (case validateInputs [NameInput, EmailInput, RoleSelect] (isValid, signer) of
        (isValid', signer') \<Rightarrow>
          (case validateSigners signers isValid' of
             (isValid'', signers') \<Rightarrow> (isValid'', signer' # signers')))"

definition validateAll :: "manager \<Rightarrow> bool \<times> manager" where
  "validateAll m =
     (let (isValid, m1) =
            (if length (selectedFiles m) = 0
               then (False, showAlert AtLeastOneDocumentRequired AlertError m)
             else (True, m))
      in case validateSigners (signersContainer m1) isValid of
           (isValid', signers') \<Rightarrow> (isValid', m1\<lparr>signersContainer := signers'\<rparr>))"

section \<open>MultipleItemsManager: the request\<close>

text \<open>
  The object \<^verbatim>\<open>getFormData\<close> returns. A signer is \<^verbatim>\<open>{ name, email, role, index }\<close>,
  the index being the position of its item among the children of the container.
  \<^verbatim>\<open>documentAssignments\<close> is \<^verbatim>\<open>null\<close> (here \<open>None\<close>) or an object from signer index to the
  array of the file ids checked for it, here an association list.
\<close>

record signer_data =
  sd_name :: string
  sd_email :: string
  sd_role :: string
  sd_index :: nat

record form_data =
  fd_files :: "file_obj list"
  fd_signers :: "signer_data list"
  fd_sequentialSigning :: bool
  fd_documentAssignments :: "(nat \<times> string list) list option"

definition signerOfItem :: "nat \<times> signer_item \<Rightarrow> signer_data" where
  "signerOfItem p =
     (case p of (index, signer) \<Rightarrow>
        \<lparr>sd_name = trim (nameValue signer), sd_email = trim (emailValue signer),
         sd_role = roleValue signer, sd_index = index\<rparr>)"

text \<open>
  The body of the \<^verbatim>\<open>forEach\<close> over the matrix check boxes: a checked box pushes its file
  id onto the array of its signer index, creating the array first when it is missing.
\<close>

definition pushAssignment ::
  "(nat \<times> string list) list \<Rightarrow> assignment_input \<Rightarrow> (nat \<times> string list) list" where
  "pushAssignment documentAssignments input =
     (if ai_checked input
        then (case map_of documentAssignments (ai_signerIndex input) of
                None \<Rightarrow> documentAssignments @ [(ai_signerIndex input, [ai_fileId input])]
              | Some fileIds \<Rightarrow>
                  map (\<lambda>(k, v). if k = ai_signerIndex input then (k, fileIds @ [ai_fileId input])
                                 else (k, v)) documentAssignments)
      else documentAssignments)"

definition getFormData :: "manager \<Rightarrow> form_data" where
  "getFormData m =
     (let signers = map signerOfItem (enumerate 0 (signersContainer m));
          sequentialSigning = sequentialSigningChecked m;
          enableDocumentAssignment = enableDocumentAssignmentChecked m;
          documentAssignments =
            (if enableDocumentAssignment then foldl pushAssignment [] (assignmentMatrix m)
             else [])
      in \<lparr>fd_files = selectedFiles m, fd_signers = signers,
          fd_sequentialSigning = sequentialSigning,
          fd_documentAssignments =
            (if enableDocumentAssignment then Some documentAssignments else None)\<rparr>)"

section \<open>DigitalSignerApp: the signing simulator\<close>

text \<open>
  What \<^verbatim>\<open>signMultipleDocuments\<close> resolves with. The fields that hold a clock value or a
  random token (\<^verbatim>\<open>signatureDate\<close>, \<^verbatim>\<open>certificateId\<close>, \<^verbatim>\<open>duration\<close>, \<^verbatim>\<open>processId\<close>) and the
  floating-point \<^verbatim>\<open>size * 1.1\<close> are left out; the message is kept as the two counts it
  interpolates.
\<close>

datatype status = Pending | Signed

record signer_result =
  sr_name :: string
  sr_email :: string
  sr_role :: string
  sr_status :: status

record document_summary =
  ds_id :: string
  ds_originalName :: string
  ds_signedName :: string
  ds_type :: string

record signing_result =
  document :: document_summary
  signers :: "signer_result list"

record outcome =
  success :: bool
  messageCounts :: "nat \<times> nat"
  signingResults :: "signing_result list"
  sequentialSigning :: bool

text \<open>
  \<^verbatim>\<open>documentAssignments[index]?.includes(file.id)\<close>: false when the object has no array for
  the index.
\<close>

definition assignmentIncludes :: "(nat \<times> string list) list \<Rightarrow> nat \<Rightarrow> string \<Rightarrow> bool" where
  "assignmentIncludes documentAssignments index fileId =
     (case map_of documentAssignments index of
        None \<Rightarrow> False
      | Some fileIds \<Rightarrow> fileId \<in> set fileIds)"

text \<open>
  \<^verbatim>\<open>fileSigners\<close>: with an assignments object (any object, also the empty one, is truthy),
  the signers whose position in the array passes the filter; with \<^verbatim>\<open>null\<close>, all signers.
\<close>

definition fileSigners :: "form_data \<Rightarrow> file_obj \<Rightarrow> signer_data list" where
  "fileSigners multipleItemsData file =
     (case fd_documentAssignments multipleItemsData of
        Some documentAssignments \<Rightarrow>
          map snd (filter (\<lambda>(index, signer). assignmentIncludes documentAssignments index (fo_id file))
                          (enumerate 0 (fd_signers multipleItemsData)))
      | None \<Rightarrow> fd_signers multipleItemsData)"

definition signerResult :: "bool \<Rightarrow> signer_data \<Rightarrow> signer_result" where
  "signerResult sequential signer =
     \<lparr>sr_name = sd_name signer, sr_email = sd_email signer, sr_role = sd_role signer,
      sr_status = (if sequential \<and> sd_index signer > 0 then Pending else Signed)\<rparr>"

definition signingResult :: "form_data \<Rightarrow> file_obj \<Rightarrow> signing_result" where
  "signingResult multipleItemsData file =
     \<lparr>document = \<lparr>ds_id = fo_id file, ds_originalName = fo_name file,
                   ds_signedName = ''signed_'' @ fo_name file, ds_type = fo_type file\<rparr>,
      signers = map (signerResult (fd_sequentialSigning multipleItemsData))
                    (fileSigners multipleItemsData file)\<rparr>"

text \<open>
  \<^verbatim>\<open>signMultipleDocuments\<close>, once its timer fires: \<open>draw\<close> is the value of the
  \<^verbatim>\<open>Math.random()\<close> of the failure test, taken as a rational number.
\<close>

definition signMultipleDocuments :: "rat \<Rightarrow> form_data \<Rightarrow> js_error + outcome" where
  "signMultipleDocuments draw multipleItemsData =
     (if draw < 5 / 100 then Inl CommunicationFailure
      else Inr \<lparr>success = True,
                messageCounts = (length (fd_files multipleItemsData),
                                 length (fd_signers multipleItemsData)),
                signingResults = map (signingResult multipleItemsData) (fd_files multipleItemsData),
                sequentialSigning = fd_sequentialSigning multipleItemsData\<rparr>)"








text \<open>
  The number of identifiers a resolving \<^verbatim>\<open>signMultipleDocuments\<close> draws from
  \<^verbatim>\<open>Utils.generateId\<close>: one certificate id for every signer entry of every file, and the
  process id. A rejecting one draws none.
\<close>

definition idsDrawnBySigning :: "form_data \<Rightarrow> nat" where
  "idsDrawnBySigning multipleItemsData =
     sum_list (map (\<lambda>file. length (fileSigners multipleItemsData file))
                   (fd_files multipleItemsData)) + 1"

text \<open>
  \<^verbatim>\<open>handleFormSubmit\<close>, from the submit event to the settled promise, as one step: it
  returns before reading any data when \<^verbatim>\<open>validateAll\<close> is false; otherwise it reads the
  form data, runs the simulator and shows the success alert or, in the \<^verbatim>\<open>catch\<close>, the
  error alert. A signing that resolves has drawn its identifiers; one that is rejected
  has drawn none.
\<close>

datatype submission = Blocked | Rejected js_error | Resolved outcome

definition handleFormSubmit :: "rat \<Rightarrow> manager \<Rightarrow> manager \<times> submission" where
  "handleFormSubmit draw m =
     (case validateAll m of
        (False, m1) \<Rightarrow> (m1, Blocked)
      | (True, m1) \<Rightarrow>
          (case signMultipleDocuments draw (getFormData m1) of
             Inl error \<Rightarrow> (showAlert (SigningFailed error) AlertError m1, Rejected error)
           | Inr result \<Rightarrow>
               (showAlert SigningStarted AlertSuccess
                  (m1\<lparr>idsDrawn := idsDrawn m1 + idsDrawnBySigning (getFormData m1)\<rparr>),
                Resolved result)))"

section \<open>FormValidator\<close>


text \<open>
  The messages of the two rules, by their translation key or meaning. A message is a
  non-empty string (\<^verbatim>\<open>getTranslation\<close> returns the key when it finds no translation), so
  the test \<^verbatim>\<open>if (error)\<close> is the test for a message.
\<close>

datatype validation_message =
    ErrorFileRequired | ErrorFileType | ErrorFileSize
  | ErrorNameRequired | ErrorNameMinLength | ErrorNameMaxLength | ErrorNameLettersOnly

text \<open>
  A rule, for the one member \<^verbatim>\<open>validateField\<close> calls: \<^verbatim>\<open>validate(value, file)\<close>, which
  returns a message or \<^verbatim>\<open>null\<close>.
\<close>

record rule =
  r_validate :: "string \<Rightarrow> jsfile option \<Rightarrow> validation_message option"






















section \<open>Sequences of operations and the properties stated of them\<close>

text \<open>
  The wording of the extension rule: the text after the last dot of the name, that is
  the longest suffix of the name that holds no dot (the whole name when it has no dot).
\<close>

definition text_after_last_dot :: "string \<Rightarrow> string" where
  "text_after_last_dot fileName = rev (takeWhile (\<lambda>c. c \<noteq> CHR ''.'') (rev fileName))"






text \<open>The key of the duplicate check, and what every record of the File Collection satisfies.\<close>

definition nameAndSize :: "file_obj \<Rightarrow> string \<times> nat" where
  "nameAndSize f = (fo_name f, fo_size f)"

definition passedChecks :: "file_obj \<Rightarrow> bool" where
  "passedChecks f =
     (fo_size f \<le> maxFileSize \<and> isFileTypeAllowed (fo_name f) [''.pdf'', ''.docx'', ''.txt''])"

definition fileCollectionInvariant :: "file_obj list \<Rightarrow> bool" where
  "fileCollectionInvariant files =
     (length files \<le> 10 \<and> distinct (map nameAndSize files) \<and> list_all passedChecks files)"

text \<open>A sequence of file selections, one \<^verbatim>\<open>change\<close> event of the file input each.\<close>

definition selectBatches :: "(nat \<Rightarrow> string) \<Rightarrow> jsfile list list \<Rightarrow> manager \<Rightarrow> manager" where
  "selectBatches gen batches m = foldl (\<lambda>m' batch. handleFileSelection gen batch m') m batches"

text \<open>
  A sequence of presses of the add button and of the remove buttons, the remove button
  being that of the item at the given position.
\<close>

datatype signer_op = AddSigner | RemoveSigner nat

fun applySignerOp :: "manager \<Rightarrow> signer_op \<Rightarrow> manager" where
  "applySignerOp m AddSigner = addSigner m"
| "applySignerOp m (RemoveSigner position) = removeSigner position m"

definition applySignerOps :: "signer_op list \<Rightarrow> manager \<Rightarrow> manager" where
  "applySignerOps ops m = foldl applySignerOp m ops"

text \<open>The bounds of the Signer Collection.\<close>

definition signerBounds :: "manager \<Rightarrow> bool" where
  "signerBounds m = (1 \<le> length (signersContainer m) \<and> length (signersContainer m) \<le> 10)"

text \<open>
  The positions, in the request's signer array, of the signers the simulator associates
  with a file: all positions without an assignments object, the positions that pass the
  filter with one.
\<close>

definition associatedPositions :: "form_data \<Rightarrow> file_obj \<Rightarrow> nat list" where
  "associatedPositions multipleItemsData file =
     filter (\<lambda>p. case fd_documentAssignments multipleItemsData of
                    None \<Rightarrow> True
                  | Some documentAssignments \<Rightarrow>
                      assignmentIncludes documentAssignments p (fo_id file))
            [0..<length (fd_signers multipleItemsData)]"

text \<open>
  The status rule read by position within the document's own signer sequence:
  \<open>signed\<close> when not sequential or at position 0 of that sequence, \<open>pending\<close> otherwise.
\<close>

definition statusByPositionInDocument :: "bool \<Rightarrow> nat \<Rightarrow> status" where
  "statusByPositionInDocument sequential positionInDocument =
     (if \<not> sequential \<or> positionInDocument = 0 then Signed else Pending)"

section \<open>Example states\<close>

definition exampleGenerateId :: "nat \<Rightarrow> string" where
  "exampleGenerateId n = ''id-'' @ replicate (Suc n) (CHR ''x'')"

definition contractPdf :: jsfile where
  "contractPdf = \<lparr>file_name = ''contract.pdf'', file_size = 2097152, file_type = ''application/pdf''\<rparr>"

definition notesTxt :: jsfile where
  "notesTxt = \<lparr>file_name = ''Notes.TXT'', file_size = 120, file_type = ''text/plain''\<rparr>"

definition programExe :: jsfile where
  "programExe = \<lparr>file_name = ''program.exe'', file_size = 4096, file_type = ''application/octet-stream''\<rparr>"

definition contractObj :: file_obj where
  "contractObj = \<lparr>fo_id = ''id-x'', fo_file = contractPdf, fo_name = ''contract.pdf'',
                   fo_size = 2097152, fo_type = ''application/pdf''\<rparr>"

definition notesObj :: file_obj where
  "notesObj = \<lparr>fo_id = ''id-xx'', fo_file = notesTxt, fo_name = ''Notes.TXT'',
                fo_size = 120, fo_type = ''text/plain''\<rparr>"

definition anaItem :: signer_item where
  "anaItem = (newSignerItem 0)\<lparr>nameValue := ''Ana Silva'', emailValue := ''ana@example.com'',
                                roleValue := ''assinante''\<rparr>"

definition brunoItem :: signer_item where
  "brunoItem = (newSignerItem 1)\<lparr>nameValue := ''Bruno Costa'', emailValue := ''bruno@example.com'',
                                  roleValue := ''testemunha''\<rparr>"

definition caioItem :: signer_item where
  "caioItem = (newSignerItem 2)\<lparr>nameValue := ''Caio Lima'', emailValue := ''caio@example.com'',
                                 roleValue := ''revisor''\<rparr>"

definition anaData :: signer_data where
  "anaData = \<lparr>sd_name = ''Ana Silva'', sd_email = ''ana@example.com'', sd_role = ''assinante'',
               sd_index = 0\<rparr>"

definition brunoData :: signer_data where
  "brunoData = \<lparr>sd_name = ''Bruno Costa'', sd_email = ''bruno@example.com'',
                 sd_role = ''testemunha'', sd_index = 1\<rparr>"

definition contractSummary :: document_summary where
  "contractSummary = \<lparr>ds_id = ''id-x'', ds_originalName = ''contract.pdf'',
                       ds_signedName = ''signed_contract.pdf'', ds_type = ''application/pdf''\<rparr>"

definition notesSummary :: document_summary where
  "notesSummary = \<lparr>ds_id = ''id-xx'', ds_originalName = ''Notes.TXT'',
                    ds_signedName = ''signed_Notes.TXT'', ds_type = ''text/plain''\<rparr>"

definition anaResult :: "status \<Rightarrow> signer_result" where
  "anaResult s = \<lparr>sr_name = ''Ana Silva'', sr_email = ''ana@example.com'',
                   sr_role = ''assinante'', sr_status = s\<rparr>"

definition brunoResult :: "status \<Rightarrow> signer_result" where
  "brunoResult s = \<lparr>sr_name = ''Bruno Costa'', sr_email = ''bruno@example.com'',
                     sr_role = ''testemunha'', sr_status = s\<rparr>"

text \<open>Two files, two signers, sequential signing, assignment mode off (Scenario C).\<close>

definition exampleSequential :: manager where
  "exampleSequential =
     \<lparr>selectedFiles = [contractObj, notesObj], signersContainer = [anaItem, brunoItem],
      sequentialSigningChecked = True, enableDocumentAssignmentChecked = False,
      assignmentMatrix = [], alerts = [], idsDrawn = 2\<rparr>"

text \<open>
  One file, two signers, sequential signing, assignment mode on; the user has cleared the
  box of the first signer, so that only the second signer is to sign the file.
\<close>

definition exampleFiltered :: manager where
  "exampleFiltered =
     \<lparr>selectedFiles = [contractObj], signersContainer = [anaItem, brunoItem],
      sequentialSigningChecked = True, enableDocumentAssignmentChecked = True,
      assignmentMatrix =
        [\<lparr>ai_signerIndex = 0, ai_fileId = ''id-x'', ai_checked = False\<rparr>,
         \<lparr>ai_signerIndex = 1, ai_fileId = ''id-x'', ai_checked = True\<rparr>],
      alerts = [], idsDrawn = 1\<rparr>"

text \<open>
  Assignment mode switched off again after boxes were cleared: the matrix stays in the
  page, hidden.
\<close>

definition exampleStaleMatrix :: manager where
  "exampleStaleMatrix = exampleFiltered\<lparr>enableDocumentAssignmentChecked := False\<rparr>"

text \<open>Three signers, and a full Signer Collection of ten.\<close>

definition exampleThreeSigners :: manager where
  "exampleThreeSigners = exampleSequential\<lparr>signersContainer := [anaItem, brunoItem, caioItem]\<rparr>"

definition exampleTenSigners :: manager where
  "exampleTenSigners = newMultipleItemsManager\<lparr>signersContainer := replicate 10 anaItem\<rparr>"

text \<open>No file selected, one signer whose three fields are valid.\<close>

definition exampleNoFiles :: manager where
  "exampleNoFiles = newMultipleItemsManager\<lparr>signersContainer := [anaItem]\<rparr>"





section \<open>Facts about strings and lists\<close>

lemma split_dot_not_empty: "split_dot s \<noteq> []"
  by (induction s) (auto split: list.splits)

lemma split_dot_no_dot: "CHR ''.'' \<notin> set s \<Longrightarrow> split_dot s = [s]"
  by (induction s) auto

lemma split_dot_with_dot: "CHR ''.'' \<in> set s \<Longrightarrow> tl (split_dot s) \<noteq> []"
  using split_dot_not_empty by (induction s) (auto split: list.splits)

lemma text_after_last_dot_Cons:
  "text_after_last_dot (c # cs) =
     (if CHR ''.'' \<in> set cs then text_after_last_dot cs
      else if c = CHR ''.'' then cs else c # cs)"
  by (auto simp: text_after_last_dot_def takeWhile_append takeWhile_eq_all_conv [THEN iffD2])

lemma last_split_dot: "last (split_dot s) = text_after_last_dot s"
proof (induction s)
  case Nil
  show ?case by (simp add: text_after_last_dot_def)
next
  case (Cons c cs)
  show ?case
  proof (cases "CHR ''.'' \<in> set cs")
    case True
    then obtain p q ps where sp: "split_dot cs = p # q # ps"
      using split_dot_with_dot [of cs] by (cases "split_dot cs") (auto simp: neq_Nil_conv)
    with Cons True show ?thesis
      by (simp add: text_after_last_dot_Cons)
  next
    case False
    then show ?thesis
      by (simp add: text_after_last_dot_Cons split_dot_no_dot)
  qed
qed

lemma pop_split_dot: "pop (split_dot s) = text_after_last_dot s"
  by (simp add: pop_def last_split_dot)

lemmas lower_case_defs =
  toLowerCase_def toLowerCaseUnit_def upperCaseUnits_def lowerCaseUnits_def

lemma isFileTypeAllowed_iff:
  "isFileTypeAllowed fileName [''.pdf'', ''.docx'', ''.txt''] =
     (toLowerCase (text_after_last_dot fileName) \<in> {''pdf'', ''docx'', ''txt''})"
  by (simp add: isFileTypeAllowed_def pop_split_dot)

section \<open>Facts about the operations\<close>

lemma updateMatrix_fields [simp]:
  "selectedFiles (updateDocumentAssignmentMatrix m) = selectedFiles m"
  "signersContainer (updateDocumentAssignmentMatrix m) = signersContainer m"
  "alerts (updateDocumentAssignmentMatrix m) = alerts m"
  "sequentialSigningChecked (updateDocumentAssignmentMatrix m) = sequentialSigningChecked m"
  "enableDocumentAssignmentChecked (updateDocumentAssignmentMatrix m) =
     enableDocumentAssignmentChecked m"
  "idsDrawn (updateDocumentAssignmentMatrix m) = idsDrawn m"
  by (simp_all add: updateDocumentAssignmentMatrix_def)

lemma findIndex_none: "(\<forall>x\<in>set xs. \<not> P x) \<Longrightarrow> findIndex P xs = -1"
  by (induction xs) auto

lemma findIndex_first:
  "(\<forall>x\<in>set pre. \<not> P x) \<Longrightarrow> P f \<Longrightarrow> findIndex P (pre @ f # post) = int (length pre)"
  by (induction pre) (auto simp: Let_def)

lemma removeAt_middle: "removeAt (length pre) (pre @ f # post) = pre @ post"
  by (simp add: removeAt_def)

lemma validateInputs_False: "fst (validateInputs inputs (False, item)) = False"
  by (induction inputs arbitrary: item) (auto split: prod.splits)

lemma validateSigners_False: "fst (validateSigners items False) = False"
proof (induction items)
  case Nil
  show ?case by simp
next
  case (Cons s items)
  obtain b s' where v: "validateInputs [NameInput, EmailInput, RoleSelect] (False, s) = (b, s')"
    by (cases "validateInputs [NameInput, EmailInput, RoleSelect] (False, s)")
  have "b = False"
    using validateInputs_False [of "[NameInput, EmailInput, RoleSelect]" s] v by simp
  with Cons v show ?case by (simp add: split_beta del: validateInputs.simps)
qed

lemma validateAll_alerts_empty:
  "selectedFiles m = [] \<Longrightarrow>
     alerts (snd (validateAll m)) = alerts m @ [(AtLeastOneDocumentRequired, AlertError)]"
  by (simp add: validateAll_def showAlert_def split_beta)

lemma validateAll_false_empty: "selectedFiles m = [] \<Longrightarrow> fst (validateAll m) = False"
  using validateSigners_False [of "signersContainer m"]
  by (simp add: validateAll_def showAlert_def split_beta)

lemma handleFormSubmit_blocked:
  "\<not> fst (validateAll m) \<Longrightarrow> handleFormSubmit draw m = (snd (validateAll m), Blocked)"
  by (cases "validateAll m") (simp add: handleFormSubmit_def)

lemmas string_eval = trim_def isWhiteSpace_def emailPattern_def notSpaceOrAt_def

section \<open>Facts about the collections\<close>

lemma list_ex_dup:
  "list_ex (\<lambda>e. fo_name e = file_name file \<and> fo_size e = file_size file) fs =
     ((file_name file, file_size file) \<in> set (map nameAndSize fs))"
  by (induction fs) (auto simp: nameAndSize_def)

lemma validateAndAdd_files:
  "selectedFiles (validateAndAdd gen m file) = selectedFiles m \<or>
   (\<exists>obj. selectedFiles (validateAndAdd gen m file) = selectedFiles m @ [obj] \<and>
          passedChecks obj \<and> nameAndSize obj \<notin> set (map nameAndSize (selectedFiles m)))"
  by (auto simp add: validateAndAdd_def validateFile_def addFile_def showAlert_def Let_def
      passedChecks_def list_ex_dup nameAndSize_def)

lemma foldl_validateAndAdd:
  "\<exists>new. selectedFiles (foldl (validateAndAdd gen) m fileArray) = selectedFiles m @ new \<and>
         length new \<le> length fileArray \<and> list_all passedChecks new \<and>
         distinct (map nameAndSize new) \<and>
         set (map nameAndSize new) \<inter> set (map nameAndSize (selectedFiles m)) = {}"
proof (induction fileArray arbitrary: m)
  case Nil
  show ?case by simp
next
  case (Cons f fileArray)
  let ?m1 = "validateAndAdd gen m f"
  obtain new where new:
    "selectedFiles (foldl (validateAndAdd gen) ?m1 fileArray) = selectedFiles ?m1 @ new"
    "length new \<le> length fileArray" "list_all passedChecks new"
    "distinct (map nameAndSize new)"
    "set (map nameAndSize new) \<inter> set (map nameAndSize (selectedFiles ?m1)) = {}"
    using Cons.IH [of ?m1] by blast
  have step: "foldl (validateAndAdd gen) m (f # fileArray) = foldl (validateAndAdd gen) ?m1 fileArray"
    by simp
  from validateAndAdd_files [of gen m f] show ?case
  proof
    assume eq: "selectedFiles ?m1 = selectedFiles m"
    have "selectedFiles (foldl (validateAndAdd gen) m (f # fileArray)) = selectedFiles m @ new"
      unfolding step new(1) eq ..
    moreover have "length new \<le> length (f # fileArray)"
      using new(2) by simp
    moreover have "set (map nameAndSize new) \<inter> set (map nameAndSize (selectedFiles m)) = {}"
      using new(5) unfolding eq .
    ultimately show ?thesis
      using new(3,4) by blast
  next
    assume "\<exists>obj. selectedFiles ?m1 = selectedFiles m @ [obj] \<and>
          passedChecks obj \<and> nameAndSize obj \<notin> set (map nameAndSize (selectedFiles m))"
    then obtain obj where obj: "selectedFiles ?m1 = selectedFiles m @ [obj]"
      "passedChecks obj" "nameAndSize obj \<notin> set (map nameAndSize (selectedFiles m))"
      by blast
    have disj: "set (map nameAndSize new) \<inter> set (map nameAndSize (selectedFiles m @ [obj])) = {}"
      using new(5) unfolding obj(1) .
    have "selectedFiles (foldl (validateAndAdd gen) m (f # fileArray)) = selectedFiles m @ (obj # new)"
      unfolding step new(1) obj(1) by simp
    moreover have "length (obj # new) \<le> length (f # fileArray)"
      using new(2) by simp
    moreover have "list_all passedChecks (obj # new)"
      using new(3) obj(2) by simp
    moreover have "distinct (map nameAndSize (obj # new))"
      using new(4) disj by auto
    moreover have "set (map nameAndSize (obj # new)) \<inter> set (map nameAndSize (selectedFiles m)) = {}"
      using obj(3) disj by auto
    ultimately show ?thesis
      by blast
  qed
qed

lemma handleFileSelection_appends:
  "\<exists>new. selectedFiles (handleFileSelection gen fileArray m) = selectedFiles m @ new \<and>
         length (selectedFiles m @ new) \<le> max (length (selectedFiles m)) 10 \<and>
         list_all passedChecks new \<and> distinct (map nameAndSize new) \<and>
         set (map nameAndSize new) \<inter> set (map nameAndSize (selectedFiles m)) = {}"
proof (cases "length (selectedFiles m) + length fileArray > maxFiles")
  case True
  then have "selectedFiles (handleFileSelection gen fileArray m) = selectedFiles m @ []"
    by (simp add: handleFileSelection_def showAlert_def)
  then show ?thesis
    by (intro exI [of _ "[]"]) simp
next
  case False
  obtain new where new:
    "selectedFiles (foldl (validateAndAdd gen) m fileArray) = selectedFiles m @ new"
    "length new \<le> length fileArray" "list_all passedChecks new"
    "distinct (map nameAndSize new)"
    "set (map nameAndSize new) \<inter> set (map nameAndSize (selectedFiles m)) = {}"
    using foldl_validateAndAdd [of gen m fileArray] by blast
  have "selectedFiles (handleFileSelection gen fileArray m) = selectedFiles m @ new"
    using False new(1) by (simp add: handleFileSelection_def)
  moreover have "length (selectedFiles m @ new) \<le> max (length (selectedFiles m)) 10"
    using False new(2) by (simp add: maxFiles_def)
  ultimately show ?thesis
    using new(3,4,5) by blast
qed

lemma handleFileSelection_invariant:
  assumes "fileCollectionInvariant (selectedFiles m)"
  shows "fileCollectionInvariant (selectedFiles (handleFileSelection gen fileArray m))"
proof -
  obtain new where new:
    "selectedFiles (handleFileSelection gen fileArray m) = selectedFiles m @ new"
    "length (selectedFiles m @ new) \<le> max (length (selectedFiles m)) 10"
    "list_all passedChecks new" "distinct (map nameAndSize new)"
    "set (map nameAndSize new) \<inter> set (map nameAndSize (selectedFiles m)) = {}"
    using handleFileSelection_appends [of gen fileArray m] by blast
  have "length (selectedFiles m @ new) \<le> 10"
    using new(2) assms by (simp add: fileCollectionInvariant_def)
  moreover have "distinct (map nameAndSize (selectedFiles m @ new))"
    using new(4,5) assms by (auto simp: fileCollectionInvariant_def)
  moreover have "list_all passedChecks (selectedFiles m @ new)"
    using new(3) assms by (simp add: fileCollectionInvariant_def)
  ultimately show ?thesis
    unfolding new(1) fileCollectionInvariant_def by blast
qed

lemma selectBatches_invariant:
  "fileCollectionInvariant (selectedFiles m) \<Longrightarrow>
   fileCollectionInvariant (selectedFiles (selectBatches gen batches m))"
  unfolding selectBatches_def
proof (induction batches arbitrary: m)
  case Nil
  then show ?case by simp
next
  case (Cons b batches)
  have "fileCollectionInvariant (selectedFiles (handleFileSelection gen b m))"
    using Cons.prems by (rule handleFileSelection_invariant)
  then show ?case
    using Cons.IH [of "handleFileSelection gen b m"] by simp
qed

lemma allowed_eval:
  "isFileTypeAllowed ''contract.pdf'' [''.pdf'', ''.docx'', ''.txt'']"
  "isFileTypeAllowed ''Notes.TXT'' [''.pdf'', ''.docx'', ''.txt'']"
  "\<not> isFileTypeAllowed ''program.exe'' [''.pdf'', ''.docx'', ''.txt'']"
  by (simp_all add: isFileTypeAllowed_iff text_after_last_dot_def lower_case_defs)

lemma example_step1: "validateAndAdd exampleGenerateId newMultipleItemsManager contractPdf =
   newMultipleItemsManager\<lparr>selectedFiles := [contractObj], idsDrawn := 1\<rparr>"
  by (simp add: validateAndAdd_def validateFile_def addFile_def allowed_eval
      newMultipleItemsManager_def contractPdf_def contractObj_def maxFileSize_def exampleGenerateId_def)

lemma validateAndAdd_eval:
  "validateAndAdd gen m f =
     (if file_size f > maxFileSize
        then showAlert (FileExceedsMaxSize (file_name f) maxFileSize) AlertError m
      else if \<not> isFileTypeAllowed (file_name f) [''.pdf'', ''.docx'', ''.txt'']
        then showAlert (FileFormatNotSupported (file_name f)) AlertError m
      else if (file_name f, file_size f) \<in> set (map nameAndSize (selectedFiles m))
        then showAlert (FileAlreadySelected (file_name f)) AlertWarning m
      else addFile gen f m)"
  by (simp add: validateAndAdd_def validateFile_def list_ex_dup)

lemma example_step2: "validateAndAdd exampleGenerateId (newMultipleItemsManager\<lparr>selectedFiles := [contractObj], idsDrawn := 1\<rparr>) programExe =
   newMultipleItemsManager\<lparr>selectedFiles := [contractObj], idsDrawn := 1, alerts := [(FileFormatNotSupported ''program.exe'', AlertError)]\<rparr>"
  by (simp add: validateAndAdd_eval allowed_eval showAlert_def
      newMultipleItemsManager_def programExe_def maxFileSize_def)

lemma example_batch1: "handleFileSelection exampleGenerateId [contractPdf, programExe] newMultipleItemsManager =
   newMultipleItemsManager\<lparr>selectedFiles := [contractObj], idsDrawn := 1, alerts := [(FileFormatNotSupported ''program.exe'', AlertError)]\<rparr>"
  unfolding handleFileSelection_def foldl.simps example_step1 example_step2
  by (simp add: newMultipleItemsManager_def maxFiles_def updateDocumentAssignmentMatrix_def)

lemma example_state1_fields:
  "selectedFiles (newMultipleItemsManager\<lparr>selectedFiles := [contractObj], idsDrawn := 1, alerts := [(FileFormatNotSupported ''program.exe'', AlertError)]\<rparr>) = [contractObj]"
  by simp

lemma example_step3: "validateAndAdd exampleGenerateId (newMultipleItemsManager\<lparr>selectedFiles := [contractObj], idsDrawn := 1, alerts := [(FileFormatNotSupported ''program.exe'', AlertError)]\<rparr>) contractPdf =
   newMultipleItemsManager\<lparr>selectedFiles := [contractObj], idsDrawn := 1, alerts := [(FileFormatNotSupported ''program.exe'', AlertError), (FileAlreadySelected ''contract.pdf'', AlertWarning)]\<rparr>"
  by (simp add: validateAndAdd_eval allowed_eval showAlert_def nameAndSize_def contractObj_def
      newMultipleItemsManager_def contractPdf_def maxFileSize_def)

lemma example_step4: "validateAndAdd exampleGenerateId (newMultipleItemsManager\<lparr>selectedFiles := [contractObj], idsDrawn := 1, alerts := [(FileFormatNotSupported ''program.exe'', AlertError), (FileAlreadySelected ''contract.pdf'', AlertWarning)]\<rparr>) notesTxt =
   newMultipleItemsManager\<lparr>selectedFiles := [contractObj, notesObj], idsDrawn := 2, alerts := [(FileFormatNotSupported ''program.exe'', AlertError), (FileAlreadySelected ''contract.pdf'', AlertWarning)]\<rparr>"
  by (simp add: validateAndAdd_eval allowed_eval addFile_def nameAndSize_def contractObj_def notesObj_def
      newMultipleItemsManager_def notesTxt_def maxFileSize_def exampleGenerateId_def)

lemma example_batch2: "handleFileSelection exampleGenerateId [contractPdf, notesTxt] (newMultipleItemsManager\<lparr>selectedFiles := [contractObj], idsDrawn := 1, alerts := [(FileFormatNotSupported ''program.exe'', AlertError)]\<rparr>) =
   newMultipleItemsManager\<lparr>selectedFiles := [contractObj, notesObj], idsDrawn := 2, alerts := [(FileFormatNotSupported ''program.exe'', AlertError), (FileAlreadySelected ''contract.pdf'', AlertWarning)]\<rparr>"
  unfolding handleFileSelection_def foldl.simps example_step3 example_step4
  by (simp add: newMultipleItemsManager_def maxFiles_def updateDocumentAssignmentMatrix_def)

lemma addSigner_length:
  "length (signersContainer (addSigner m)) =
     (if length (signersContainer m) \<ge> 10 then length (signersContainer m)
      else Suc (length (signersContainer m)))"
  by (simp add: addSigner_def showAlert_def maxSigners_def Let_def)

lemma removeAt_length: "length (removeAt p xs) = (if p < length xs then length xs - 1 else length xs)"
  by (auto simp: removeAt_def)

lemma removeSigner_length:
  "length (signersContainer (removeSigner p m)) =
     (if length (signersContainer m) \<le> 1 \<or> p \<ge> length (signersContainer m) then length (signersContainer m)
      else length (signersContainer m) - 1)"
  by (simp add: removeSigner_def showAlert_def removeAt_length)

lemma applySignerOp_bounds: "signerBounds m \<Longrightarrow> signerBounds (applySignerOp m op)"
  by (cases op) (auto simp: signerBounds_def addSigner_length removeSigner_length)

lemma applySignerOps_bounds: "signerBounds m \<Longrightarrow> signerBounds (applySignerOps ops m)"
  unfolding applySignerOps_def
proof (induction ops arbitrary: m)
  case Nil
  then show ?case by simp
next
  case (Cons op ops)
  have "signerBounds (applySignerOp m op)"
    using Cons.prems by (rule applySignerOp_bounds)
  then show ?case using Cons.IH [of "applySignerOp m op"] by simp
qed

lemma getFormData_signers:
  "fd_signers (getFormData m) = map signerOfItem (enumerate 0 (signersContainer m))"
  by (simp add: getFormData_def Let_def)

lemma sd_index_signerOfItem: "map (sd_index \<circ> signerOfItem) (enumerate n xs) = [n..<n + length xs]"
  by (induction xs arbitrary: n) (auto simp: signerOfItem_def upt_rec)

lemma getFormData_indices:
  "map sd_index (fd_signers (getFormData m)) = [0..<length (signersContainer m)]"
  by (simp add: getFormData_signers sd_index_signerOfItem)

lemma getFormData_nth:
  "i < length (signersContainer m) \<Longrightarrow>
   fd_signers (getFormData m) ! i = signerOfItem (i, signersContainer m ! i)"
  by (simp add: getFormData_signers nth_enumerate_eq)

lemma removeAt_nth:
  "p < length xs \<Longrightarrow> i < length xs - 1 \<Longrightarrow>
   removeAt p xs ! i = (if i < p then xs ! i else xs ! Suc i)"
  by (auto simp: removeAt_def nth_append min_def)

section \<open>Facts about the simulator\<close>

lemma zip_upt_nth: "zip [0..<length xs] xs = map (\<lambda>i. (i, xs ! i)) [0..<length xs]"
proof (rule nth_equalityI)
  show "length (zip [0..<length xs] xs) = length (map (\<lambda>i. (i, xs ! i)) [0..<length xs])"
    by simp
next
  fix i
  assume "i < length (zip [0..<length xs] xs)"
  then show "zip [0..<length xs] xs ! i = map (\<lambda>i. (i, xs ! i)) [0..<length xs] ! i"
    by simp
qed

lemma filter_enumerate_positions:
  "map snd (filter (\<lambda>(i, s). A i) (enumerate 0 xs)) = map ((!) xs) (filter A [0..<length xs])"
  by (simp add: enumerate_eq_zip zip_upt_nth filter_map comp_def)

lemma fileSigners_positions:
  "fileSigners d f = map ((!) (fd_signers d)) (associatedPositions d f)"
  by (cases "fd_documentAssignments d")
     (simp_all add: fileSigners_def associatedPositions_def filter_enumerate_positions map_nth)

lemma associatedPositions_bound: "p \<in> set (associatedPositions d f) \<Longrightarrow> p < length (fd_signers d)"
  by (simp add: associatedPositions_def)

lemma index_is_position:
  "map sd_index xs = [0..<length xs] \<Longrightarrow> p < length xs \<Longrightarrow> sd_index (xs ! p) = p"
proof -
  assume eq: "map sd_index xs = [0..<length xs]" and p: "p < length xs"
  have "sd_index (xs ! p) = map sd_index xs ! p"
    using p by simp
  also have "\<dots> = [0..<length xs] ! p"
    by (simp only: eq)
  also have "\<dots> = p"
    using p by simp
  finally show ?thesis .
qed

lemma map_constant: "(\<forall>x\<in>set xs. g x = c) \<Longrightarrow> map g xs = replicate (length xs) c"
  by (induction xs) auto

lemma filter_upt_zero:
  assumes "0 \<in> set (filter A [0..<n])"
  shows "filter A [0..<n] = 0 # filter A [1..<n]"
proof (cases n)
  case 0
  with assms show ?thesis by simp
next
  case (Suc k)
  from assms have "A 0" by simp
  have u: "[0..<Suc k] = 0 # [1..<Suc k]"
    unfolding One_nat_def by (rule upt_conv_Cons) simp
  show ?thesis
    unfolding Suc u using \<open>A 0\<close> by (simp del: upt_Suc)
qed

lemma statuses_positions:
  assumes "map sd_index (fd_signers d) = [0..<length (fd_signers d)]"
  shows "map sr_status (signers (signingResult d f)) =
           map (\<lambda>p. if fd_sequentialSigning d \<and> 0 < p then Pending else Signed)
               (associatedPositions d f)"
  using index_is_position [OF assms] associatedPositions_bound [of _ d f]
  by (simp add: signingResult_def fileSigners_positions signerResult_def comp_def)

lemma names_positions:
  "map sr_name (signers (signingResult d f)) = map (\<lambda>p. sd_name (fd_signers d ! p)) (associatedPositions d f)"
  by (simp add: signingResult_def fileSigners_positions signerResult_def comp_def)

lemma statuses_first_signed:
  assumes "0 \<in> set (associatedPositions d f)"
  shows "map (\<lambda>p. if 0 < p then Pending else Signed) (associatedPositions d f) =
           Signed # replicate (length (associatedPositions d f) - 1) Pending"
proof -
  let ?A = "\<lambda>p. case fd_documentAssignments d of None \<Rightarrow> True
                  | Some documentAssignments \<Rightarrow> assignmentIncludes documentAssignments p (fo_id f)"
  let ?n = "length (fd_signers d)"
  have eq: "associatedPositions d f = 0 # filter ?A [1..<?n]"
    using assms unfolding associatedPositions_def by (rule filter_upt_zero)
  have "map (\<lambda>p. if 0 < p then Pending else Signed) (filter ?A [1..<?n]) =
          replicate (length (filter ?A [1..<?n])) Pending"
    by (rule map_constant) auto
  then show ?thesis unfolding eq by simp
qed

lemma statuses_all_pending:
  assumes "0 \<notin> set (associatedPositions d f)"
  shows "map (\<lambda>p. if 0 < p then Pending else Signed) (associatedPositions d f) =
           replicate (length (associatedPositions d f)) Pending"
proof (rule map_constant, rule ballI)
  fix p assume "p \<in> set (associatedPositions d f)"
  with assms have "p \<noteq> 0" by metis
  then show "(if 0 < p then Pending else Signed) = Pending" by simp
qed

lemma signMultipleDocuments_resolves:
  "5 / 100 \<le> draw \<Longrightarrow> signMultipleDocuments draw d =
     Inr \<lparr>success = True, messageCounts = (length (fd_files d), length (fd_signers d)),
          signingResults = map (signingResult d) (fd_files d),
          sequentialSigning = fd_sequentialSigning d\<rparr>"
  by (simp add: signMultipleDocuments_def)

lemma signMultipleDocuments_rejects_iff:
  "(signMultipleDocuments draw d = Inl CommunicationFailure) = (draw < 5 / 100)"
  by (simp add: signMultipleDocuments_def)

section \<open>The example requests\<close>

lemmas example_items = anaItem_def brunoItem_def caioItem_def newSignerItem_def
lemmas example_files = contractObj_def notesObj_def contractPdf_def notesTxt_def

lemma example_sequential_data:
  "getFormData exampleSequential =
     \<lparr>fd_files = [contractObj, notesObj], fd_signers = [anaData, brunoData],
      fd_sequentialSigning = True, fd_documentAssignments = None\<rparr>"
  by (simp add: getFormData_def exampleSequential_def signerOfItem_def example_items
      anaData_def brunoData_def string_eval)

lemma example_filtered_data:
  "getFormData exampleFiltered =
     \<lparr>fd_files = [contractObj], fd_signers = [anaData, brunoData],
      fd_sequentialSigning = True, fd_documentAssignments = Some [(1, [''id-x''])]\<rparr>"
  by (simp add: getFormData_def exampleFiltered_def signerOfItem_def example_items
      anaData_def brunoData_def string_eval pushAssignment_def)

lemma example_stale_data:
  "getFormData exampleStaleMatrix =
     \<lparr>fd_files = [contractObj], fd_signers = [anaData, brunoData],
      fd_sequentialSigning = True, fd_documentAssignments = None\<rparr>"
  by (simp add: getFormData_def exampleStaleMatrix_def exampleFiltered_def signerOfItem_def example_items
      anaData_def brunoData_def string_eval)

lemma example_filtered_signers:
  "fileSigners \<lparr>fd_files = [contractObj], fd_signers = [anaData, brunoData],
      fd_sequentialSigning = True, fd_documentAssignments = Some [(1, [''id-x''])]\<rparr> contractObj = [brunoData]"
  by (simp add: fileSigners_def assignmentIncludes_def contractObj_def)

lemma example_filtered_result:
  "signingResult (getFormData exampleFiltered) contractObj =
     \<lparr>document = contractSummary, signers = [brunoResult Pending]\<rparr>"
proof -
  have s: "fileSigners (getFormData exampleFiltered) contractObj = [brunoData]"
    unfolding example_filtered_data by (rule example_filtered_signers)
  show ?thesis
    unfolding signingResult_def s
    by (simp add: example_filtered_data signerResult_def brunoData_def brunoResult_def
        contractSummary_def contractObj_def)
qed

lemma example_sequential_results:
  "map (signingResult (getFormData exampleSequential)) (fd_files (getFormData exampleSequential)) =
     [\<lparr>document = contractSummary, signers = [anaResult Signed, brunoResult Pending]\<rparr>,
      \<lparr>document = notesSummary, signers = [anaResult Signed, brunoResult Pending]\<rparr>]"
  unfolding example_sequential_data
  by (simp add: signingResult_def fileSigners_def signerResult_def anaData_def brunoData_def
      anaResult_def brunoResult_def contractSummary_def notesSummary_def contractObj_def notesObj_def)

section \<open>Facts about the validator\<close>

















section \<open>Facts about a submission\<close>







section \<open>The extension check\<close>

text \<open>
  Claim C8. The extension check of the File Collection is case-insensitive: for every
  file name, \<open>isFileTypeAllowed\<close> with the types \<open>.pdf\<close>, \<open>.docx\<close>, \<open>.txt\<close> accepts the name
  exactly when the lower-cased text after its last dot is \<open>pdf\<close>, \<open>docx\<close> or \<open>txt\<close> (for a
  name without a dot that text is the whole name, as \<open>split\<close> and \<open>pop\<close> give it); and
  \<open>validateFile\<close> accepts a candidate exactly when its size is within the limit, its name
  passes this check and no selected file has its name and size.
\<close>

theorem extension_check_case_insensitive:
  "isFileTypeAllowed fileName [''.pdf'', ''.docx'', ''.txt''] =
     (toLowerCase (text_after_last_dot fileName) \<in> {''pdf'', ''docx'', ''txt''}) \<and>
   fst (validateFile file m) =
     (file_size file \<le> maxFileSize \<and>
      toLowerCase (text_after_last_dot (file_name file)) \<in> {''pdf'', ''docx'', ''txt''} \<and>
      \<not> list_ex (\<lambda>existingFile. fo_name existingFile = file_name file \<and>
                                  fo_size existingFile = file_size file) (selectedFiles m))"
  unfolding validateFile_def isFileTypeAllowed_iff by auto

text \<open>The names \<open>A.PDF\<close> and \<open>b.Txt\<close> pass, \<open>b.Text\<close> does not, and \<open>Notes.TXT\<close> is accepted.\<close>

theorem extension_check_case_insensitive_witness:
  "isFileTypeAllowed ''A.PDF'' [''.pdf'', ''.docx'', ''.txt''] \<and>
   isFileTypeAllowed ''b.Txt'' [''.pdf'', ''.docx'', ''.txt''] \<and>
   \<not> isFileTypeAllowed ''b.Text'' [''.pdf'', ''.docx'', ''.txt''] \<and>
   fst (validateFile notesTxt newMultipleItemsManager)"
  using extension_check_case_insensitive [of "''A.PDF''" notesTxt newMultipleItemsManager]
    extension_check_case_insensitive [of "''b.Txt''" notesTxt newMultipleItemsManager]
    extension_check_case_insensitive [of "''b.Text''" notesTxt newMultipleItemsManager]
  by (simp add: text_after_last_dot_def lower_case_defs notesTxt_def
      newMultipleItemsManager_def maxFileSize_def)

section \<open>A selection beyond the capacity\<close>

text \<open>
  Claim C4. When the number of candidates of a selection plus the size of the File
  Collection exceeds \<open>maxFiles = 10\<close>, \<open>handleFileSelection\<close> shows the one capacity alert
  and changes nothing else: the state is the old state with that alert appended, so no
  candidate is appended, whatever the candidates are. In particular, selecting 11 files
  into an empty collection leaves it with 0 files and shows that one alert.
\<close>

theorem batch_over_capacity_rejected:
  "(length (selectedFiles m) + length fileArray > maxFiles \<longrightarrow>
      handleFileSelection gen fileArray m =
        m\<lparr>alerts := alerts m @ [(MaxFilesAllowed 10, AlertError)]\<rparr> \<and>
      selectedFiles (handleFileSelection gen fileArray m) = selectedFiles m) \<and>
   (selectedFiles m = [] \<and> length fileArray = 11 \<longrightarrow>
      length (selectedFiles (handleFileSelection gen fileArray m)) = 0 \<and>
      alerts (handleFileSelection gen fileArray m) =
        alerts m @ [(MaxFilesAllowed 10, AlertError)])"
  by (simp add: handleFileSelection_def showAlert_def maxFiles_def)

text \<open>Eleven copies of a valid file, selected into the empty collection of a new manager.\<close>

theorem batch_over_capacity_rejected_witness:
  "length (selectedFiles newMultipleItemsManager) + length (replicate 11 contractPdf) > maxFiles \<and>
   selectedFiles (handleFileSelection exampleGenerateId (replicate 11 contractPdf)
                    newMultipleItemsManager) = [] \<and>
   alerts (handleFileSelection exampleGenerateId (replicate 11 contractPdf)
             newMultipleItemsManager) = [(MaxFilesAllowed 10, AlertError)]"
  using batch_over_capacity_rejected
          [of newMultipleItemsManager "replicate 11 contractPdf" exampleGenerateId]
  by (simp add: newMultipleItemsManager_def maxFiles_def)

section \<open>Removing a file\<close>

text \<open>
  Claim C9. For every File Collection and every id: when no record has the id,
  \<open>removeFile\<close> leaves the whole state unchanged; when the collection is \<open>pre @ f # post\<close>
  with \<open>f\<close> the first record of that id, the collection becomes \<open>pre @ post\<close>, that is,
  exactly that one record is removed and the other records stay as they are, in their
  order (later records of the same id included), and the signers and the alerts are
  untouched; and a collection with a record of the id always splits in that way.
\<close>

theorem removeFile_removes_first_match:
  "((\<forall>g\<in>set (selectedFiles m). fo_id g \<noteq> fileId) \<longrightarrow> removeFile fileId m = m) \<and>
   (selectedFiles m = pre @ f # post \<and> fo_id f = fileId \<and>
    (\<forall>g\<in>set pre. fo_id g \<noteq> fileId) \<longrightarrow>
      selectedFiles (removeFile fileId m) = pre @ post \<and>
      signersContainer (removeFile fileId m) = signersContainer m \<and>
      alerts (removeFile fileId m) = alerts m) \<and>
   ((\<exists>g\<in>set (selectedFiles m). fo_id g = fileId) \<longrightarrow>
      (\<exists>pre f post. selectedFiles m = pre @ f # post \<and> fo_id f = fileId \<and>
                     (\<forall>g\<in>set pre. fo_id g \<noteq> fileId)))"
proof (intro conjI impI)
  assume "\<forall>g\<in>set (selectedFiles m). fo_id g \<noteq> fileId"
  then have "findIndex (\<lambda>f. fo_id f = fileId) (selectedFiles m) = -1"
    by (intro findIndex_none) simp
  then show "removeFile fileId m = m"
    by (simp add: removeFile_def)
next
  assume a: "selectedFiles m = pre @ f # post \<and> fo_id f = fileId \<and>
             (\<forall>g\<in>set pre. fo_id g \<noteq> fileId)"
  then have i: "findIndex (\<lambda>f. fo_id f = fileId) (selectedFiles m) = int (length pre)"
    using findIndex_first [of pre "\<lambda>f. fo_id f = fileId" f post] by simp
  show "selectedFiles (removeFile fileId m) = pre @ post"
    unfolding removeFile_def i using a by (simp add: removeAt_middle)
  show "signersContainer (removeFile fileId m) = signersContainer m"
    by (simp add: removeFile_def i)
  show "alerts (removeFile fileId m) = alerts m"
    by (simp add: removeFile_def i)
next
  assume "\<exists>g\<in>set (selectedFiles m). fo_id g = fileId"
  then show "\<exists>pre f post. selectedFiles m = pre @ f # post \<and> fo_id f = fileId \<and>
                     (\<forall>g\<in>set pre. fo_id g \<noteq> fileId)"
    using split_list_first_prop [of "selectedFiles m" "\<lambda>g. fo_id g = fileId"] by blast
qed

text \<open>
  Removing the first of two files, removing an id no record has, and removing an id that
  two records share (only the first of them goes).
\<close>

theorem removeFile_removes_first_match_witness:
  "selectedFiles (removeFile ''id-x'' exampleSequential) = [notesObj] \<and>
   removeFile ''id-none'' exampleSequential = exampleSequential \<and>
   selectedFiles (removeFile ''id-x''
       (exampleSequential\<lparr>selectedFiles := [notesObj, contractObj, notesObj, contractObj]\<rparr>)) =
     [notesObj, notesObj, contractObj]"
  using removeFile_removes_first_match
          [of exampleSequential "''id-x''" "[]" contractObj "[notesObj]"]
        removeFile_removes_first_match
          [of exampleSequential "''id-none''" "[]" contractObj "[notesObj]"]
        removeFile_removes_first_match
          [of "exampleSequential\<lparr>selectedFiles := [notesObj, contractObj, notesObj, contractObj]\<rparr>"
              "''id-x''" "[notesObj]" contractObj "[notesObj, contractObj]"]
  by (simp add: exampleSequential_def contractObj_def notesObj_def)

section \<open>Submitting without a file\<close>

text \<open>
  Claim C10. In every state whose File Collection is empty, \<open>validateAll\<close> returns false
  and shows the alert that at least one document must be selected (and no other alert),
  whatever the signer fields hold, and \<open>handleFormSubmit\<close> stops there: nothing is
  submitted.
\<close>

theorem validateAll_requires_a_file:
  "selectedFiles m = [] \<longrightarrow>
     fst (validateAll m) = False \<and>
     alerts (snd (validateAll m)) = alerts m @ [(AtLeastOneDocumentRequired, AlertError)] \<and>
     selectedFiles (snd (validateAll m)) = [] \<and>
     snd (handleFormSubmit draw m) = Blocked"
  using handleFormSubmit_blocked [of m draw]
  by (simp add: validateAll_alerts_empty validateAll_false_empty)
     (simp add: validateAll_def showAlert_def split_beta)

text \<open>No file and one signer whose name, e-mail and role all pass their checks.\<close>

theorem validateAll_requires_a_file_witness:
  "selectedFiles exampleNoFiles = [] \<and>
   fst (validateSigners (signersContainer exampleNoFiles) True) = True \<and>
   fst (validateAll exampleNoFiles) = False \<and>
   alerts (snd (validateAll exampleNoFiles)) = [(AtLeastOneDocumentRequired, AlertError)] \<and>
   snd (handleFormSubmit (1 / 2) exampleNoFiles) = Blocked"
  using validateAll_requires_a_file [of exampleNoFiles "1 / 2"]
  by (simp add: exampleNoFiles_def newMultipleItemsManager_def anaItem_def newSignerItem_def
      validateSignerField_def signerFieldError_def setFieldErrorClass_def string_eval)

section \<open>The File Collection under selections\<close>

text \<open>
  Claim C2. After every sequence of selections applied to a new manager, the File
  Collection has at most 10 records, no two of its records have the same name and size,
  and each of its records is within the size limit and has an allowed extension; any
  state with these properties keeps them under selections. One selection only appends:
  the new collection is the old one followed by records that passed the size and extension
  checks, whose names and sizes differ from one another and from those of the old records.
\<close>

theorem file_collection_invariant:
  "fileCollectionInvariant (selectedFiles (selectBatches gen batches newMultipleItemsManager)) \<and>
   (fileCollectionInvariant (selectedFiles m) \<longrightarrow>
      fileCollectionInvariant (selectedFiles (selectBatches gen batches m))) \<and>
   (\<exists>new. selectedFiles (handleFileSelection gen fileArray m) = selectedFiles m @ new \<and>
          list_all passedChecks new \<and> distinct (map nameAndSize new) \<and>
          set (map nameAndSize new) \<inter> set (map nameAndSize (selectedFiles m)) = {})"
proof (intro conjI impI)
  have "fileCollectionInvariant (selectedFiles newMultipleItemsManager)"
    by (simp add: fileCollectionInvariant_def newMultipleItemsManager_def)
  then show "fileCollectionInvariant (selectedFiles (selectBatches gen batches newMultipleItemsManager))"
    by (rule selectBatches_invariant)
next
  assume "fileCollectionInvariant (selectedFiles m)"
  then show "fileCollectionInvariant (selectedFiles (selectBatches gen batches m))"
    by (rule selectBatches_invariant)
next
  show "\<exists>new. selectedFiles (handleFileSelection gen fileArray m) = selectedFiles m @ new \<and>
          list_all passedChecks new \<and> distinct (map nameAndSize new) \<and>
          set (map nameAndSize new) \<inter> set (map nameAndSize (selectedFiles m)) = {}"
    using handleFileSelection_appends [of gen fileArray m] by blast
qed

text \<open>
  Two selections: a valid file and a file of another type, then the first file again and
  another valid file. The collection ends with the two valid files.
\<close>

theorem file_collection_invariant_witness:
  "fileCollectionInvariant (selectedFiles (selectBatches exampleGenerateId
      [[contractPdf, programExe], [contractPdf, notesTxt]] newMultipleItemsManager)) \<and>
   selectedFiles (selectBatches exampleGenerateId
      [[contractPdf, programExe], [contractPdf, notesTxt]] newMultipleItemsManager) = [contractObj, notesObj]"
  using file_collection_invariant [of exampleGenerateId "[[contractPdf, programExe], [contractPdf, notesTxt]]" newMultipleItemsManager "[]"]
  unfolding selectBatches_def foldl.simps example_batch1 example_batch2
  by simp

section \<open>The Signer Collection under add and remove\<close>

text \<open>
  Claim C3. Under every sequence of \<open>addSigner\<close> and \<open>removeSigner\<close>, from a state with
  between 1 and 10 signers and so from a new manager, the number of signers stays between
  1 and \<open>maxSigners = 10\<close>. \<open>addSigner\<close> at 10 signers and \<open>removeSigner\<close> at 1 signer show
  their alert (of type error) and change nothing else. A \<open>removeSigner\<close> that succeeds
  takes the item out, shows no alert, and the positions are derived anew: the indices the
  request gives the signers are again 0, 1, 2, ..., every signer after the removed one has
  the index one below its old one with its other fields as before, and the signers before
  it are as before.
\<close>

theorem signer_collection_bounds:
  "(1 \<le> length (signersContainer m) \<and> length (signersContainer m) \<le> maxSigners \<longrightarrow>
      1 \<le> length (signersContainer (applySignerOps ops m)) \<and>
      length (signersContainer (applySignerOps ops m)) \<le> maxSigners) \<and>
   1 \<le> length (signersContainer (applySignerOps ops newMultipleItemsManager)) \<and>
   length (signersContainer (applySignerOps ops newMultipleItemsManager)) \<le> 10 \<and>
   (length (signersContainer m) = 10 \<longrightarrow>
      addSigner m = m\<lparr>alerts := alerts m @ [(MaxSignersAllowed 10, AlertError)]\<rparr>) \<and>
   (length (signersContainer m) = 1 \<longrightarrow>
      removeSigner position m = m\<lparr>alerts := alerts m @ [(AtLeastOneSignerRequired, AlertError)]\<rparr>) \<and>
   (1 < length (signersContainer m) \<and> position < length (signersContainer m) \<longrightarrow>
      signersContainer (removeSigner position m) =
        take position (signersContainer m) @ drop (Suc position) (signersContainer m) \<and>
      alerts (removeSigner position m) = alerts m \<and>
      map sd_index (fd_signers (getFormData (removeSigner position m))) =
        [0..<length (signersContainer m) - 1] \<and>
      (\<forall>i. position \<le> i \<and> i < length (signersContainer m) - 1 \<longrightarrow>
           fd_signers (getFormData (removeSigner position m)) ! i =
             (fd_signers (getFormData m) ! Suc i)\<lparr>sd_index := i\<rparr>) \<and>
      (\<forall>i. i < position \<longrightarrow>
           fd_signers (getFormData (removeSigner position m)) ! i = fd_signers (getFormData m) ! i))"
proof (intro conjI impI allI)
  assume a: "1 \<le> length (signersContainer m) \<and> length (signersContainer m) \<le> maxSigners"
  then have "signerBounds (applySignerOps ops m)"
    by (intro applySignerOps_bounds) (simp add: signerBounds_def maxSigners_def)
  then show "1 \<le> length (signersContainer (applySignerOps ops m))"
    and "length (signersContainer (applySignerOps ops m)) \<le> maxSigners"
    by (simp_all add: signerBounds_def maxSigners_def)
next
  have "signerBounds (applySignerOps ops newMultipleItemsManager)"
    by (intro applySignerOps_bounds) (simp add: signerBounds_def newMultipleItemsManager_def)
  then show "1 \<le> length (signersContainer (applySignerOps ops newMultipleItemsManager))"
    and "length (signersContainer (applySignerOps ops newMultipleItemsManager)) \<le> 10"
    by (simp_all add: signerBounds_def)
next
  assume "length (signersContainer m) = 10"
  then show "addSigner m = m\<lparr>alerts := alerts m @ [(MaxSignersAllowed 10, AlertError)]\<rparr>"
    by (simp add: addSigner_def showAlert_def maxSigners_def)
next
  assume "length (signersContainer m) = 1"
  then show "removeSigner position m = m\<lparr>alerts := alerts m @ [(AtLeastOneSignerRequired, AlertError)]\<rparr>"
    by (simp add: removeSigner_def showAlert_def)
next
  assume a: "1 < length (signersContainer m) \<and> position < length (signersContainer m)"
  then have sc: "signersContainer (removeSigner position m) = removeAt position (signersContainer m)"
    by (simp add: removeSigner_def)
  show "signersContainer (removeSigner position m) =
        take position (signersContainer m) @ drop (Suc position) (signersContainer m)"
    unfolding sc removeAt_def ..
  show "alerts (removeSigner position m) = alerts m"
    using a by (simp add: removeSigner_def)
  have len: "length (signersContainer (removeSigner position m)) = length (signersContainer m) - 1"
    using a by (simp add: sc removeAt_length)
  show "map sd_index (fd_signers (getFormData (removeSigner position m))) =
        [0..<length (signersContainer m) - 1]"
    by (simp only: getFormData_indices len)
  {
    fix i
    assume i: "position \<le> i \<and> i < length (signersContainer m) - 1"
    have il: "i < length (signersContainer (removeSigner position m))"
      using i len by simp
    have "signersContainer (removeSigner position m) ! i = signersContainer m ! Suc i"
      unfolding sc using removeAt_nth [of position "signersContainer m" i] a i by simp
    then have "fd_signers (getFormData (removeSigner position m)) ! i =
            signerOfItem (i, signersContainer m ! Suc i)"
      using getFormData_nth [OF il] by simp
    moreover have "Suc i < length (signersContainer m)"
      using i by arith
    then have "fd_signers (getFormData m) ! Suc i = signerOfItem (Suc i, signersContainer m ! Suc i)"
      by (rule getFormData_nth)
    ultimately show "fd_signers (getFormData (removeSigner position m)) ! i =
             (fd_signers (getFormData m) ! Suc i)\<lparr>sd_index := i\<rparr>"
      by (simp add: signerOfItem_def)
  }
  {
    fix i
    assume i: "i < position"
    have il: "i < length (signersContainer (removeSigner position m))"
      using i a len by arith
    have il': "i < length (signersContainer m)" "i < length (signersContainer m) - 1"
      using i a by arith+
    have "signersContainer (removeSigner position m) ! i = signersContainer m ! i"
      unfolding sc using removeAt_nth [of position "signersContainer m" i] a i il' by simp
    then show "fd_signers (getFormData (removeSigner position m)) ! i = fd_signers (getFormData m) ! i"
      using getFormData_nth [OF il] getFormData_nth [OF il'(1)] by simp
  }
qed

text \<open>
  Add, remove, remove again from a new manager (the second remove is refused); an add at
  ten signers; and the removal of the first of three signers, after which the two signers
  left have the indices 0 and 1 while their \<open>data-signer-index\<close> attributes still read
  1 and 2.
\<close>

lemma example_add: "addSigner newMultipleItemsManager = newMultipleItemsManager\<lparr>signersContainer := [newSignerItem 0, newSignerItem 1]\<rparr>"
  by (simp add: addSigner_def newMultipleItemsManager_def maxSigners_def updateDocumentAssignmentMatrix_def)

lemma example_remove: "removeSigner 0 (newMultipleItemsManager\<lparr>signersContainer := [newSignerItem 0, newSignerItem 1]\<rparr>)
   = newMultipleItemsManager\<lparr>signersContainer := [newSignerItem 1]\<rparr>"
  by (simp add: removeSigner_def newMultipleItemsManager_def removeAt_def updateDocumentAssignmentMatrix_def)

lemma example_remove_last: "removeSigner 0 (newMultipleItemsManager\<lparr>signersContainer := [newSignerItem 1]\<rparr>)
   = newMultipleItemsManager\<lparr>signersContainer := [newSignerItem 1], alerts := [(AtLeastOneSignerRequired, AlertError)]\<rparr>"
  by (simp add: removeSigner_def newMultipleItemsManager_def showAlert_def)

theorem signer_collection_bounds_witness:
  "applySignerOps [AddSigner, RemoveSigner 0, RemoveSigner 0] newMultipleItemsManager =
     newMultipleItemsManager\<lparr>signersContainer := [newSignerItem 1],
                              alerts := [(AtLeastOneSignerRequired, AlertError)]\<rparr> \<and>
   addSigner exampleTenSigners =
     exampleTenSigners\<lparr>alerts := [(MaxSignersAllowed 10, AlertError)]\<rparr> \<and>
   map sd_name (fd_signers (getFormData exampleThreeSigners)) =
     [''Ana Silva'', ''Bruno Costa'', ''Caio Lima''] \<and>
   map sd_name (fd_signers (getFormData (removeSigner 0 exampleThreeSigners))) =
     [''Bruno Costa'', ''Caio Lima''] \<and>
   map sd_index (fd_signers (getFormData (removeSigner 0 exampleThreeSigners))) = [0, 1] \<and>
   map dataSignerIndex (signersContainer (removeSigner 0 exampleThreeSigners)) = [1, 2]"
  using signer_collection_bounds [of newMultipleItemsManager "[AddSigner, RemoveSigner 0, RemoveSigner 0]" 0]
    signer_collection_bounds [of exampleTenSigners "[]" 0]
    signer_collection_bounds [of "newMultipleItemsManager\<lparr>signersContainer := [newSignerItem 1]\<rparr>" "[]" 0]
    signer_collection_bounds [of exampleThreeSigners "[]" 0]
  unfolding applySignerOps_def foldl.simps applySignerOp.simps example_add example_remove example_remove_last
  by (simp add: exampleTenSigners_def exampleThreeSigners_def exampleSequential_def
      newMultipleItemsManager_def getFormData_signers signerOfItem_def
      removeSigner_def removeAt_def
      anaItem_def brunoItem_def caioItem_def newSignerItem_def string_eval maxSigners_def)

section \<open>The status of a signer\<close>

text \<open>
  Claim C1, as stated, reads the status rule by the signer's position within the
  document's own sequence of associated signers, so that with sequential signing the first
  associated signer of every document is \<open>signed\<close>, also under an assignment. The code
  tests \<open>signer.index\<close>, the position in the request's full signer array. In the request
  of \<open>exampleFiltered\<close> (sequential, one file, the first signer's box cleared) the file's
  only associated signer is the second signer of the request: it is at position 0 of the
  document's sequence, where the rule as stated gives \<open>signed\<close>, and the simulator gives
  it \<open>pending\<close>.
\<close>

theorem first_associated_signer_pending_counterexample:
  "fd_sequentialSigning (getFormData exampleFiltered) = True \<and>
   fileSigners (getFormData exampleFiltered) contractObj = [brunoData] \<and>
   signMultipleDocuments (1 / 2) (getFormData exampleFiltered) =
     Inr \<lparr>success = True, messageCounts = (1, 2),
          signingResults = [\<lparr>document = contractSummary, signers = [brunoResult Pending]\<rparr>],
          sequentialSigning = True\<rparr> \<and>
   statusByPositionInDocument True 0 = Signed"
proof (intro conjI)
  show "fd_sequentialSigning (getFormData exampleFiltered) = True"
    by (simp add: example_filtered_data)
  show "fileSigners (getFormData exampleFiltered) contractObj = [brunoData]"
    unfolding example_filtered_data by (rule example_filtered_signers)
  have "map (signingResult (getFormData exampleFiltered)) (fd_files (getFormData exampleFiltered)) =
          [\<lparr>document = contractSummary, signers = [brunoResult Pending]\<rparr>]"
    using example_filtered_result by (simp add: example_filtered_data)
  then show "signMultipleDocuments (1 / 2) (getFormData exampleFiltered) =
     Inr \<lparr>success = True, messageCounts = (1, 2),
          signingResults = [\<lparr>document = contractSummary, signers = [brunoResult Pending]\<rparr>],
          sequentialSigning = True\<rparr>"
    unfolding signMultipleDocuments_def by (simp add: example_filtered_data)
  show "statusByPositionInDocument True 0 = Signed"
    by (simp add: statusByPositionInDocument_def)
qed

text \<open>
  Claim C1, amended. \<open>getFormData\<close> gives every signer its position in the Signer
  Collection as index. For every request whose signers carry their positions as indices,
  and every draw that is not a failure, the simulator resolves with one result per file,
  in order, and the statuses of a file's result are a function of the sequential flag and
  of the positions, in the request's signer array, of the signers associated with the file:
  \<open>signed\<close> if not sequential or the position is 0, \<open>pending\<close> otherwise. So without
  sequential signing all are \<open>signed\<close>; with it, a file whose associated signers include
  the signer at position 0 has that signer first and \<open>signed\<close> and all others \<open>pending\<close>,
  which is every file when there is no assignments object and at least one signer; and a
  file whose assignment leaves the signer at position 0 out has only \<open>pending\<close> entries.
\<close>

theorem status_by_position_in_request:
  "map sd_index (fd_signers (getFormData m)) = [0..<length (signersContainer m)] \<and>
   (map sd_index (fd_signers d) = [0..<length (fd_signers d)] \<and> 5 / 100 \<le> draw \<longrightarrow>
      (\<exists>out. signMultipleDocuments draw d = Inr out \<and>
         sequentialSigning out = fd_sequentialSigning d \<and>
         length (signingResults out) = length (fd_files d) \<and>
         (\<forall>j<length (fd_files d).
            map sr_status (signers (signingResults out ! j)) =
              map (\<lambda>p. if fd_sequentialSigning d \<and> 0 < p then Pending else Signed)
                  (associatedPositions d (fd_files d ! j)) \<and>
            map sr_name (signers (signingResults out ! j)) =
              map (\<lambda>p. sd_name (fd_signers d ! p)) (associatedPositions d (fd_files d ! j)) \<and>
            (\<not> fd_sequentialSigning d \<longrightarrow>
               map sr_status (signers (signingResults out ! j)) =
                 replicate (length (associatedPositions d (fd_files d ! j))) Signed) \<and>
            (fd_sequentialSigning d \<and> 0 \<in> set (associatedPositions d (fd_files d ! j)) \<longrightarrow>
               map sr_status (signers (signingResults out ! j)) =
                 Signed # replicate (length (associatedPositions d (fd_files d ! j)) - 1) Pending) \<and>
            (fd_sequentialSigning d \<and> 0 \<notin> set (associatedPositions d (fd_files d ! j)) \<longrightarrow>
               map sr_status (signers (signingResults out ! j)) =
                 replicate (length (associatedPositions d (fd_files d ! j))) Pending) \<and>
            (fd_sequentialSigning d \<and> fd_documentAssignments d = None \<and> fd_signers d \<noteq> [] \<longrightarrow>
               map sr_status (signers (signingResults out ! j)) =
                 Signed # replicate (length (fd_signers d) - 1) Pending))))"
proof (intro conjI impI)
  show "map sd_index (fd_signers (getFormData m)) = [0..<length (signersContainer m)]"
    by (rule getFormData_indices)
next
  assume a: "map sd_index (fd_signers d) = [0..<length (fd_signers d)] \<and> 5 / 100 \<le> draw"
  let ?out = "\<lparr>success = True, messageCounts = (length (fd_files d), length (fd_signers d)),
          signingResults = map (signingResult d) (fd_files d),
          sequentialSigning = fd_sequentialSigning d\<rparr>"
  have res: "signMultipleDocuments draw d = Inr ?out"
    using a by (simp add: signMultipleDocuments_resolves)
  have each: "map sr_status (signers (signingResult d f)) =
              map (\<lambda>p. if fd_sequentialSigning d \<and> 0 < p then Pending else Signed)
                  (associatedPositions d f)" for f
    using a by (simp add: statuses_positions)
  have none: "fd_documentAssignments d = None \<Longrightarrow> associatedPositions d f = [0..<length (fd_signers d)]" for f
    by (simp add: associatedPositions_def)
  have props: "map sr_status (signers (signingResult d f)) =
              map (\<lambda>p. if fd_sequentialSigning d \<and> 0 < p then Pending else Signed)
                  (associatedPositions d f) \<and>
            map sr_name (signers (signingResult d f)) =
              map (\<lambda>p. sd_name (fd_signers d ! p)) (associatedPositions d f) \<and>
            (\<not> fd_sequentialSigning d \<longrightarrow>
               map sr_status (signers (signingResult d f)) =
                 replicate (length (associatedPositions d f)) Signed) \<and>
            (fd_sequentialSigning d \<and> 0 \<in> set (associatedPositions d f) \<longrightarrow>
               map sr_status (signers (signingResult d f)) =
                 Signed # replicate (length (associatedPositions d f) - 1) Pending) \<and>
            (fd_sequentialSigning d \<and> 0 \<notin> set (associatedPositions d f) \<longrightarrow>
               map sr_status (signers (signingResult d f)) =
                 replicate (length (associatedPositions d f)) Pending) \<and>
            (fd_sequentialSigning d \<and> fd_documentAssignments d = None \<and> fd_signers d \<noteq> [] \<longrightarrow>
               map sr_status (signers (signingResult d f)) =
                 Signed # replicate (length (fd_signers d) - 1) Pending)" for f
  proof (intro conjI impI)
    show "map sr_status (signers (signingResult d f)) =
              map (\<lambda>p. if fd_sequentialSigning d \<and> 0 < p then Pending else Signed)
                  (associatedPositions d f)"
      by (rule each)
    show "map sr_name (signers (signingResult d f)) =
              map (\<lambda>p. sd_name (fd_signers d ! p)) (associatedPositions d f)"
      by (rule names_positions)
  next
    assume "\<not> fd_sequentialSigning d"
    then show "map sr_status (signers (signingResult d f)) =
                 replicate (length (associatedPositions d f)) Signed"
      unfolding each by (simp add: map_constant)
  next
    assume s: "fd_sequentialSigning d \<and> 0 \<in> set (associatedPositions d f)"
    then show "map sr_status (signers (signingResult d f)) =
                 Signed # replicate (length (associatedPositions d f) - 1) Pending"
      unfolding each using statuses_first_signed [of d f] by simp
  next
    assume s: "fd_sequentialSigning d \<and> 0 \<notin> set (associatedPositions d f)"
    then show "map sr_status (signers (signingResult d f)) =
                 replicate (length (associatedPositions d f)) Pending"
      unfolding each using statuses_all_pending [of d f] by simp
  next
    assume s: "fd_sequentialSigning d \<and> fd_documentAssignments d = None \<and> fd_signers d \<noteq> []"
    then have p: "associatedPositions d f = [0..<length (fd_signers d)]"
      by (simp add: none)
    have "0 \<in> set (associatedPositions d f)"
      unfolding p using s by simp
    then show "map sr_status (signers (signingResult d f)) =
                 Signed # replicate (length (fd_signers d) - 1) Pending"
      unfolding each using statuses_first_signed [of d f] s p by simp
  qed
  show "\<exists>out. signMultipleDocuments draw d = Inr out \<and>
         sequentialSigning out = fd_sequentialSigning d \<and>
         length (signingResults out) = length (fd_files d) \<and>
         (\<forall>j<length (fd_files d).
            map sr_status (signers (signingResults out ! j)) =
              map (\<lambda>p. if fd_sequentialSigning d \<and> 0 < p then Pending else Signed)
                  (associatedPositions d (fd_files d ! j)) \<and>
            map sr_name (signers (signingResults out ! j)) =
              map (\<lambda>p. sd_name (fd_signers d ! p)) (associatedPositions d (fd_files d ! j)) \<and>
            (\<not> fd_sequentialSigning d \<longrightarrow>
               map sr_status (signers (signingResults out ! j)) =
                 replicate (length (associatedPositions d (fd_files d ! j))) Signed) \<and>
            (fd_sequentialSigning d \<and> 0 \<in> set (associatedPositions d (fd_files d ! j)) \<longrightarrow>
               map sr_status (signers (signingResults out ! j)) =
                 Signed # replicate (length (associatedPositions d (fd_files d ! j)) - 1) Pending) \<and>
            (fd_sequentialSigning d \<and> 0 \<notin> set (associatedPositions d (fd_files d ! j)) \<longrightarrow>
               map sr_status (signers (signingResults out ! j)) =
                 replicate (length (associatedPositions d (fd_files d ! j))) Pending) \<and>
            (fd_sequentialSigning d \<and> fd_documentAssignments d = None \<and> fd_signers d \<noteq> [] \<longrightarrow>
               map sr_status (signers (signingResults out ! j)) =
                 Signed # replicate (length (fd_signers d) - 1) Pending))"
  proof (intro exI [of _ ?out] conjI)
    show "signMultipleDocuments draw d = Inr ?out" by (rule res)
    show "sequentialSigning ?out = fd_sequentialSigning d" by simp
    show "length (signingResults ?out) = length (fd_files d)" by simp
    have nth: "signingResults ?out ! j = signingResult d (fd_files d ! j)"
      if "j < length (fd_files d)" for j
      using that by simp
    show "\<forall>j<length (fd_files d). map sr_status (signers (signingResults ?out ! j)) =
              map (\<lambda>p. if fd_sequentialSigning d \<and> 0 < p then Pending else Signed)
                  (associatedPositions d (fd_files d ! j)) \<and>
            map sr_name (signers (signingResults ?out ! j)) =
              map (\<lambda>p. sd_name (fd_signers d ! p)) (associatedPositions d (fd_files d ! j)) \<and>
            (\<not> fd_sequentialSigning d \<longrightarrow>
               map sr_status (signers (signingResults ?out ! j)) =
                 replicate (length (associatedPositions d (fd_files d ! j))) Signed) \<and>
            (fd_sequentialSigning d \<and> 0 \<in> set (associatedPositions d (fd_files d ! j)) \<longrightarrow>
               map sr_status (signers (signingResults ?out ! j)) =
                 Signed # replicate (length (associatedPositions d (fd_files d ! j)) - 1) Pending) \<and>
            (fd_sequentialSigning d \<and> 0 \<notin> set (associatedPositions d (fd_files d ! j)) \<longrightarrow>
               map sr_status (signers (signingResults ?out ! j)) =
                 replicate (length (associatedPositions d (fd_files d ! j))) Pending) \<and>
            (fd_sequentialSigning d \<and> fd_documentAssignments d = None \<and> fd_signers d \<noteq> [] \<longrightarrow>
               map sr_status (signers (signingResults ?out ! j)) =
                 Signed # replicate (length (fd_signers d) - 1) Pending)"
    proof (intro allI impI)
      fix j
      assume j: "j < length (fd_files d)"
      show "map sr_status (signers (signingResults ?out ! j)) =
              map (\<lambda>p. if fd_sequentialSigning d \<and> 0 < p then Pending else Signed)
                  (associatedPositions d (fd_files d ! j)) \<and>
            map sr_name (signers (signingResults ?out ! j)) =
              map (\<lambda>p. sd_name (fd_signers d ! p)) (associatedPositions d (fd_files d ! j)) \<and>
            (\<not> fd_sequentialSigning d \<longrightarrow>
               map sr_status (signers (signingResults ?out ! j)) =
                 replicate (length (associatedPositions d (fd_files d ! j))) Signed) \<and>
            (fd_sequentialSigning d \<and> 0 \<in> set (associatedPositions d (fd_files d ! j)) \<longrightarrow>
               map sr_status (signers (signingResults ?out ! j)) =
                 Signed # replicate (length (associatedPositions d (fd_files d ! j)) - 1) Pending) \<and>
            (fd_sequentialSigning d \<and> 0 \<notin> set (associatedPositions d (fd_files d ! j)) \<longrightarrow>
               map sr_status (signers (signingResults ?out ! j)) =
                 replicate (length (associatedPositions d (fd_files d ! j))) Pending) \<and>
            (fd_sequentialSigning d \<and> fd_documentAssignments d = None \<and> fd_signers d \<noteq> [] \<longrightarrow>
               map sr_status (signers (signingResults ?out ! j)) =
                 Signed # replicate (length (fd_signers d) - 1) Pending)"
        unfolding nth [OF j] by (rule props)
    qed
  qed
qed

text \<open>
  Scenario C: two files, two signers, sequential, no assignment; each file has the first
  signer \<open>signed\<close> and the second \<open>pending\<close>.
\<close>

theorem status_by_position_in_request_witness:
  "map sd_index (fd_signers (getFormData exampleSequential)) =
     [0..<length (fd_signers (getFormData exampleSequential))] \<and>
   (5 / 100 :: rat) \<le> 1 / 2 \<and>
   signMultipleDocuments (1 / 2) (getFormData exampleSequential) =
     Inr \<lparr>success = True, messageCounts = (2, 2),
          signingResults =
            [\<lparr>document = contractSummary, signers = [anaResult Signed, brunoResult Pending]\<rparr>,
             \<lparr>document = notesSummary, signers = [anaResult Signed, brunoResult Pending]\<rparr>],
          sequentialSigning = True\<rparr> \<and>
   associatedPositions (getFormData exampleSequential) contractObj = [0, 1] \<and>
   associatedPositions (getFormData exampleFiltered) contractObj = [1]"
proof -
  have h: "map sd_index (fd_signers (getFormData exampleSequential)) =
     [0..<length (fd_signers (getFormData exampleSequential))] \<and> (5 / 100 :: rat) \<le> 1 / 2"
    by (simp add: example_sequential_data anaData_def brunoData_def)
  from status_by_position_in_request [of exampleSequential "getFormData exampleSequential" "1 / 2"] h
  obtain out where out: "signMultipleDocuments (1 / 2) (getFormData exampleSequential) = Inr out"
    "sequentialSigning out = fd_sequentialSigning (getFormData exampleSequential)"
    by blast
  have "signMultipleDocuments (1 / 2) (getFormData exampleSequential) =
     Inr \<lparr>success = True, messageCounts = (2, 2),
          signingResults =
            [\<lparr>document = contractSummary, signers = [anaResult Signed, brunoResult Pending]\<rparr>,
             \<lparr>document = notesSummary, signers = [anaResult Signed, brunoResult Pending]\<rparr>],
          sequentialSigning = True\<rparr>"
    unfolding signMultipleDocuments_def example_sequential_results
    by (simp add: example_sequential_data)
  moreover have "associatedPositions (getFormData exampleSequential) contractObj = [0, 1]"
    by (simp add: associatedPositions_def example_sequential_data)
  moreover have "associatedPositions (getFormData exampleFiltered) contractObj = [1]"
    by (simp add: associatedPositions_def example_filtered_data assignmentIncludes_def contractObj_def)
  ultimately show ?thesis
    using h out by simp
qed

section \<open>Assignment mode disabled\<close>

text \<open>
  Claim C7. When the assignment mode check box is off, the request \<open>getFormData\<close> builds
  has \<open>null\<close> for its assignments, and is the same request whatever the check boxes of the
  matrix hold; and the simulator, when it does not fail, gives one result per file, each
  with exactly one entry per signer of the Signer Collection, in order, with that signer's
  trimmed name and e-mail and its role.
\<close>

theorem no_assignment_when_mode_disabled:
  "\<not> enableDocumentAssignmentChecked m \<longrightarrow>
     fd_documentAssignments (getFormData m) = None \<and>
     getFormData (m\<lparr>assignmentMatrix := matrix\<rparr>) = getFormData m \<and>
     (5 / 100 \<le> draw \<longrightarrow>
        (\<exists>out. signMultipleDocuments draw (getFormData m) = Inr out \<and>
           map (\<lambda>r. ds_id (document r)) (signingResults out) = map fo_id (selectedFiles m) \<and>
           (\<forall>r\<in>set (signingResults out).
              length (signers r) = length (signersContainer m) \<and>
              map sr_name (signers r) = map (\<lambda>item. trim (nameValue item)) (signersContainer m) \<and>
              map sr_email (signers r) = map (\<lambda>item. trim (emailValue item)) (signersContainer m) \<and>
              map sr_role (signers r) = map roleValue (signersContainer m))))"
proof (intro impI conjI)
  assume off: "\<not> enableDocumentAssignmentChecked m"
  then show none: "fd_documentAssignments (getFormData m) = None"
    by (simp add: getFormData_def)
  show "getFormData (m\<lparr>assignmentMatrix := matrix\<rparr>) = getFormData m"
    using off by (simp add: getFormData_def)
  have all: "fileSigners (getFormData m) f = fd_signers (getFormData m)" for f
    using none by (simp add: fileSigners_def)
  have names: "map (sd_name \<circ> signerOfItem) (enumerate n xs) = map (\<lambda>item. trim (nameValue item)) xs" for n xs
    by (induction xs arbitrary: n) (simp_all add: signerOfItem_def)
  have emails: "map (sd_email \<circ> signerOfItem) (enumerate n xs) = map (\<lambda>item. trim (emailValue item)) xs" for n xs
    by (induction xs arbitrary: n) (simp_all add: signerOfItem_def)
  have roles: "map (sd_role \<circ> signerOfItem) (enumerate n xs) = map roleValue xs" for n xs
    by (induction xs arbitrary: n) (simp_all add: signerOfItem_def)
  have each: "length (signers (signingResult (getFormData m) f)) = length (signersContainer m) \<and>
              map sr_name (signers (signingResult (getFormData m) f)) = map (\<lambda>item. trim (nameValue item)) (signersContainer m) \<and>
              map sr_email (signers (signingResult (getFormData m) f)) = map (\<lambda>item. trim (emailValue item)) (signersContainer m) \<and>
              map sr_role (signers (signingResult (getFormData m) f)) = map roleValue (signersContainer m)" for f
    by (simp add: signingResult_def all getFormData_signers signerResult_def comp_def
        names [unfolded comp_def] emails [unfolded comp_def] roles [unfolded comp_def])
  assume d: "5 / 100 \<le> draw"
  let ?d = "getFormData m"
  let ?out = "\<lparr>success = True, messageCounts = (length (fd_files ?d), length (fd_signers ?d)),
          signingResults = map (signingResult ?d) (fd_files ?d),
          sequentialSigning = fd_sequentialSigning ?d\<rparr>"
  show "\<exists>out. signMultipleDocuments draw (getFormData m) = Inr out \<and>
           map (\<lambda>r. ds_id (document r)) (signingResults out) = map fo_id (selectedFiles m) \<and>
           (\<forall>r\<in>set (signingResults out).
              length (signers r) = length (signersContainer m) \<and>
              map sr_name (signers r) = map (\<lambda>item. trim (nameValue item)) (signersContainer m) \<and>
              map sr_email (signers r) = map (\<lambda>item. trim (emailValue item)) (signersContainer m) \<and>
              map sr_role (signers r) = map roleValue (signersContainer m))"
  proof (intro exI [of _ ?out] conjI)
    show "signMultipleDocuments draw (getFormData m) = Inr ?out"
      using d by (rule signMultipleDocuments_resolves)
    show "map (\<lambda>r. ds_id (document r)) (signingResults ?out) = map fo_id (selectedFiles m)"
      by (simp add: signingResult_def comp_def getFormData_def Let_def)
    show "\<forall>r\<in>set (signingResults ?out).
              length (signers r) = length (signersContainer m) \<and>
              map sr_name (signers r) = map (\<lambda>item. trim (nameValue item)) (signersContainer m) \<and>
              map sr_email (signers r) = map (\<lambda>item. trim (emailValue item)) (signersContainer m) \<and>
              map sr_role (signers r) = map roleValue (signersContainer m)"
    proof
      fix r
      assume "r \<in> set (signingResults ?out)"
      then obtain f where "r = signingResult (getFormData m) f"
        by auto
      then show "length (signers r) = length (signersContainer m) \<and>
              map sr_name (signers r) = map (\<lambda>item. trim (nameValue item)) (signersContainer m) \<and>
              map sr_email (signers r) = map (\<lambda>item. trim (emailValue item)) (signersContainer m) \<and>
              map sr_role (signers r) = map roleValue (signersContainer m)"
        using each [of f] by simp
    qed
  qed
qed

text \<open>
  One file and two signers, assignment mode switched off while the box of the first signer
  is still cleared in the hidden matrix: both signers are in the file's result.
\<close>

theorem no_assignment_when_mode_disabled_witness:
  "\<not> enableDocumentAssignmentChecked exampleStaleMatrix \<and>
   map ai_checked (assignmentMatrix exampleStaleMatrix) = [False, True] \<and>
   (5 / 100 :: rat) \<le> 1 / 2 \<and>
   fd_documentAssignments (getFormData exampleStaleMatrix) = None \<and>
   signMultipleDocuments (1 / 2) (getFormData exampleStaleMatrix) =
     Inr \<lparr>success = True, messageCounts = (1, 2),
          signingResults =
            [\<lparr>document = contractSummary, signers = [anaResult Signed, brunoResult Pending]\<rparr>],
          sequentialSigning = True\<rparr>"
proof -
  have off: "\<not> enableDocumentAssignmentChecked exampleStaleMatrix"
    by (simp add: exampleStaleMatrix_def)
  have d: "(5 / 100 :: rat) \<le> 1 / 2"
    by simp
  from no_assignment_when_mode_disabled [of exampleStaleMatrix "[]" "1 / 2"] off d
  have none: "fd_documentAssignments (getFormData exampleStaleMatrix) = None"
    by blast
  have "map (signingResult (getFormData exampleStaleMatrix)) (fd_files (getFormData exampleStaleMatrix)) =
     [\<lparr>document = contractSummary, signers = [anaResult Signed, brunoResult Pending]\<rparr>]"
    unfolding example_stale_data
    by (simp add: signingResult_def fileSigners_def signerResult_def anaData_def brunoData_def
      anaResult_def brunoResult_def contractSummary_def contractObj_def)
  then have "signMultipleDocuments (1 / 2) (getFormData exampleStaleMatrix) =
     Inr \<lparr>success = True, messageCounts = (1, 2),
          signingResults =
            [\<lparr>document = contractSummary, signers = [anaResult Signed, brunoResult Pending]\<rparr>],
          sequentialSigning = True\<rparr>"
    unfolding signMultipleDocuments_def
    by (simp add: example_stale_data)
  moreover have "map ai_checked (assignmentMatrix exampleStaleMatrix) = [False, True]"
    by (simp add: exampleStaleMatrix_def exampleFiltered_def)
  ultimately show ?thesis
    using off d none by simp
qed

section \<open>The simulated failure and the delay\<close>




section \<open>Validation and reading the form data\<close>












end
